theory Spec2Isabelle
  imports Complex_Main
begin

section \<open>Data model\<close>

text \<open>
  The enums of \<^verbatim>\<open>validation/intent-schemas.ts\<close>. JavaScript numbers are modelled as
  \<^typ>\<open>real\<close> (results of \<^verbatim>\<open>Math.ceil\<close> as \<^typ>\<open>int\<close>), timestamps and dates as the
  number of milliseconds since the epoch they denote, \<^verbatim>\<open>null\<close>/\<^verbatim>\<open>undefined\<close> as \<open>None\<close>.
\<close>

datatype intent_stage = Discovery | Qualification | Proposal | Negotiation | ClosedWon | ClosedLost

datatype intent_priority = PriorityLow | PriorityMedium | PriorityHigh | PriorityUrgent

datatype level = Low | Medium | High

datatype action_type = ActCall | ActEmail | ActMeeting | ActFollowUp | ActProposal | ActDemo

datatype insight_type = Behavioral | Predictive | Contextual | Competitive

datatype json = JNum real | JStr string | JBool bool

type_synonym metadata = "(string \<times> json) list"

fun stage_name :: "intent_stage \<Rightarrow> string" where
  "stage_name Discovery = ''discovery''"
| "stage_name Qualification = ''qualification''"
| "stage_name Proposal = ''proposal''"
| "stage_name Negotiation = ''negotiation''"
| "stage_name ClosedWon = ''closed-won''"
| "stage_name ClosedLost = ''closed-lost''"

text \<open>\<^verbatim>\<open>NextBestActionSchema\<close> and \<^verbatim>\<open>AIInsightSchema\<close>.\<close>

record next_best_action =
  nba_id :: string
  nba_type :: action_type
  nba_title :: string
  nba_description :: string
  nba_priority :: real
  nba_reasoning :: string
  nba_confidence :: real
  nba_estimated_impact :: level
  nba_estimated_effort :: level
  nba_due_date :: "string option"
  nba_metadata :: metadata

record ai_insight =
  ins_id :: string
  ins_type :: insight_type
  ins_title :: string
  ins_description :: string
  ins_confidence :: real
  ins_reasoning :: string
  ins_impact :: level
  ins_timestamp :: string
  ins_metadata :: metadata

text \<open>
  The joined relationship columns and a row of the \<^verbatim>\<open>intents\<close> table as the query of
  \<^verbatim>\<open>getIntent\<close>/\<^verbatim>\<open>listIntents\<close> returns it. The column types are those of the
  migration: \<^verbatim>\<open>stage\<close> is the six-valued enum, \<^verbatim>\<open>updated_at\<close> a timestamp,
  \<^verbatim>\<open>expected_close_date\<close> a nullable date.
\<close>

record relationship_summary =
  rs_id :: string
  rs_name :: string
  rs_email :: "string option"
  rs_company :: "string option"
  rs_propensity_score :: real

record intent_row =
  i_id :: string
  i_org_id :: string
  i_relationship_id :: string
  i_title :: string
  i_description :: "string option"
  i_value :: real
  i_currency :: string
  i_stage :: intent_stage
  i_priority :: intent_priority
  i_expected_close_date :: "int option"
  i_probability :: real
  i_metadata :: metadata
  i_created_at :: int
  i_updated_at :: int
  i_relationships :: relationship_summary
  i_interactions :: "nat list"

text \<open>
  What the host runtime and the libraries supply to one call: the clock (\<^verbatim>\<open>Date.now()\<close>,
  read as one instant for the duration of the call), the identifiers \<^verbatim>\<open>uuidv4()\<close> hands
  out (the \<open>k\<close>-th one drawn while building a list), the number and date formatters, the
  duration \<^verbatim>\<open>span.finish()\<close> measures, the string tests behind \<^verbatim>\<open>z.string().uuid()\<close> and
  \<^verbatim>\<open>z.string().date()\<close>, and the message texts of the errors the libraries raise.
\<close>

record runtime =
  now :: int
  uuidv4 :: "nat \<Rightarrow> string"
  toLocaleString :: "real \<Rightarrow> string"
  numberToString :: "real \<Rightarrow> string"
  toISOString :: "int \<Rightarrow> string"
  spanDuration :: real
  isUUID :: "string \<Rightarrow> bool"
  isDate :: "string \<Rightarrow> bool"
  zodErrorMessage :: string
  typeErrorMessage :: string

section \<open>Insight rule engine\<close>

definition calculateDaysInStage :: "runtime \<Rightarrow> int \<Rightarrow> intent_stage \<Rightarrow> int" where
  "calculateDaysInStage rt updatedAt stage =
     \<lceil>real_of_int (now rt - updatedAt) / (1000 * 60 * 60 * 24)\<rceil>"

definition highConversionInsight :: "runtime \<Rightarrow> intent_row \<Rightarrow> nat \<Rightarrow> ai_insight" where
  "highConversionInsight rt intentData k =
     \<lparr> ins_id = uuidv4 rt k,
       ins_type = Behavioral,
       ins_title = ''High Conversion Probability Detected'',
       ins_description = ''This intent shows strong buying signals with 80%+ probability while still in qualification stage.'',
       ins_confidence = 0.92,
       ins_reasoning = ''High probability score combined with early stage indicates accelerated buying process'',
       ins_impact = High,
       ins_timestamp = toISOString rt (now rt),
       ins_metadata = [(''probability'', JNum (i_probability intentData)),
                       (''stage'', JStr (stage_name (i_stage intentData)))] \<rparr>"

definition closingSoonInsight :: "runtime \<Rightarrow> intent_row \<Rightarrow> int \<Rightarrow> nat \<Rightarrow> ai_insight" where
  "closingSoonInsight rt intentData daysToClose k =
     \<lparr> ins_id = uuidv4 rt k,
       ins_type = Predictive,
       ins_title = ''High-Value Deal Closing Soon'',
       ins_description = ''$'' @ toLocaleString rt (i_value intentData)
          @ '' deal expected to close within '' @ numberToString rt (real_of_int daysToClose)
          @ '' days.'',
       ins_confidence = 0.85,
       ins_reasoning = ''Large deal value with near-term close date requires focused attention'',
       ins_impact = High,
       ins_timestamp = toISOString rt (now rt),
       ins_metadata = [(''value'', JNum (i_value intentData)),
                       (''days_to_close'', JNum (real_of_int daysToClose))] \<rparr>"

definition extendedStageInsight :: "runtime \<Rightarrow> intent_row \<Rightarrow> int \<Rightarrow> nat \<Rightarrow> ai_insight" where
  "extendedStageInsight rt intentData daysInStage k =
     \<lparr> ins_id = uuidv4 rt k,
       ins_type = Contextual,
       ins_title = ''Extended Stage Duration'',
       ins_description = ''Intent has been in '' @ stage_name (i_stage intentData)
          @ '' stage for '' @ numberToString rt (real_of_int daysInStage)
          @ '' days, longer than typical.'',
       ins_confidence = 0.78,
       ins_reasoning = ''Extended time in stage may indicate stalled progress or need for intervention'',
       ins_impact = Medium,
       ins_timestamp = toISOString rt (now rt),
       ins_metadata = [(''days_in_stage'', JNum (real_of_int daysInStage)),
                       (''stage'', JStr (stage_name (i_stage intentData)))] \<rparr>"

text \<open>
  \<^verbatim>\<open>generateAIInsights\<close>: three independent rules, each pushing onto the list built so far.
  Every pushed object is a literal that satisfies \<^verbatim>\<open>AIInsightSchema\<close>, so the
  \<^verbatim>\<open>parse\<close> around it returns it unchanged.
\<close>

definition generateAIInsights :: "runtime \<Rightarrow> intent_row \<Rightarrow> ai_insight list" where
  "generateAIInsights rt intentData =
     (let insights0 = [];
          insights1 =
            (if i_probability intentData > 0.8 \<and> i_stage intentData = Qualification
             then insights0 @ [highConversionInsight rt intentData (length insights0)]
             else insights0);
          insights2 =
            (case i_expected_close_date intentData of
               Some closeDate \<Rightarrow>
                 if i_value intentData > 50000
                 then (let daysToClose =
                             \<lceil>real_of_int (closeDate - now rt) / (1000 * 60 * 60 * 24)\<rceil>
                       in if daysToClose < 30
                          then insights1 @ [closingSoonInsight rt intentData daysToClose (length insights1)]
                          else insights1)
                 else insights1
             | None \<Rightarrow> insights1);
          daysInStage = calculateDaysInStage rt (i_updated_at intentData) (i_stage intentData);
          insights3 =
            (if daysInStage > 30 \<and> i_stage intentData \<noteq> Discovery
             then insights2 @ [extendedStageInsight rt intentData daysInStage (length insights2)]
             else insights2)
      in insights3)"

subsection \<open>Next best actions\<close>

definition discoveryCallAction :: "runtime \<Rightarrow> intent_row \<Rightarrow> nat \<Rightarrow> next_best_action" where
  "discoveryCallAction rt intentData k =
     \<lparr> nba_id = uuidv4 rt k,
       nba_type = ActCall,
       nba_title = ''Discovery Call'',
       nba_description = ''Schedule a discovery call to better understand needs and increase engagement'',
       nba_priority = 2,
       nba_reasoning = ''Low probability indicates need for deeper relationship building'',
       nba_confidence = 0.85,
       nba_estimated_impact = High,
       nba_estimated_effort = Medium,
       nba_due_date = None,
       nba_metadata = [(''current_probability'', JNum (i_probability intentData))] \<rparr>"

definition sendProposalAction :: "runtime \<Rightarrow> intent_row \<Rightarrow> nat \<Rightarrow> next_best_action" where
  "sendProposalAction rt intentData k =
     \<lparr> nba_id = uuidv4 rt k,
       nba_type = ActProposal,
       nba_title = ''Send Proposal'',
       nba_description = ''High qualification score indicates readiness for formal proposal'',
       nba_priority = 1,
       nba_reasoning = ''Strong qualification signals suggest buyer is ready to evaluate solutions'',
       nba_confidence = 0.91,
       nba_estimated_impact = High,
       nba_estimated_effort = High,
       nba_due_date = Some (toISOString rt (now rt + 3 * 24 * 60 * 60 * 1000)),
       nba_metadata = [(''probability'', JNum (i_probability intentData))] \<rparr>"

definition proposalFollowUpAction :: "runtime \<Rightarrow> intent_row \<Rightarrow> int \<Rightarrow> nat \<Rightarrow> next_best_action" where
  "proposalFollowUpAction rt intentData daysInStage k =
     \<lparr> nba_id = uuidv4 rt k,
       nba_type = ActFollowUp,
       nba_title = ''Proposal Follow-up'',
       nba_description = ''Follow up on proposal submitted 2+ weeks ago'',
       nba_priority = 1,
       nba_reasoning = ''Extended time in proposal stage requires proactive follow-up'',
       nba_confidence = 0.88,
       nba_estimated_impact = Medium,
       nba_estimated_effort = Low,
       nba_due_date = None,
       nba_metadata = [(''days_in_stage'', JNum (real_of_int daysInStage))] \<rparr>"

definition negotiationMeetingAction :: "runtime \<Rightarrow> intent_row \<Rightarrow> nat \<Rightarrow> next_best_action" where
  "negotiationMeetingAction rt intentData k =
     \<lparr> nba_id = uuidv4 rt k,
       nba_type = ActMeeting,
       nba_title = ''Negotiation Meeting'',
       nba_description = ''Schedule meeting to address final terms and close the deal'',
       nba_priority = 1,
       nba_reasoning = ''Negotiation stage requires direct engagement to resolve final objections'',
       nba_confidence = 0.82,
       nba_estimated_impact = High,
       nba_estimated_effort = Medium,
       nba_due_date = None,
       nba_metadata = [(''stage'', JStr (stage_name (i_stage intentData)))] \<rparr>"

definition executiveMeetingAction :: "runtime \<Rightarrow> intent_row \<Rightarrow> nat \<Rightarrow> next_best_action" where
  "executiveMeetingAction rt intentData k =
     \<lparr> nba_id = uuidv4 rt k,
       nba_type = ActMeeting,
       nba_title = ''Executive Meeting'',
       nba_description = ''High-value deal warrants executive-level engagement'',
       nba_priority = 1,
       nba_reasoning = ''Large deal value justifies senior stakeholder involvement'',
       nba_confidence = 0.79,
       nba_estimated_impact = High,
       nba_estimated_effort = High,
       nba_due_date = None,
       nba_metadata = [(''deal_value'', JNum (i_value intentData))] \<rparr>"

text \<open>
  \<^verbatim>\<open>Array.prototype.sort\<close> with a comparison function: a stable sort, here insertion
  from the right, which keeps the original order of elements the comparator ranks equal.
\<close>

fun insert_by :: "('a \<Rightarrow> 'a \<Rightarrow> real) \<Rightarrow> 'a \<Rightarrow> 'a list \<Rightarrow> 'a list" where
  "insert_by cmp x [] = [x]"
| "insert_by cmp x (y # ys) = (if cmp x y \<le> 0 then x # y # ys else y # insert_by cmp x ys)"

definition array_sort :: "('a \<Rightarrow> 'a \<Rightarrow> real) \<Rightarrow> 'a list \<Rightarrow> 'a list" where
  "array_sort cmp xs = foldr (insert_by cmp) xs []"

text \<open>The comparator passed to \<^verbatim>\<open>actions.sort\<close>.\<close>

definition compareActions :: "next_best_action \<Rightarrow> next_best_action \<Rightarrow> real" where
  "compareActions a b =
     (if nba_priority a \<noteq> nba_priority b then nba_priority a - nba_priority b
      else nba_confidence b - nba_confidence a)"

text \<open>
  The \<^verbatim>\<open>switch (intentData.stage)\<close> of \<^verbatim>\<open>generateNextBestActions\<close>, starting from the
  empty list. As for the insights, every pushed literal satisfies \<^verbatim>\<open>NextBestActionSchema\<close>
  and its \<^verbatim>\<open>parse\<close> returns it unchanged.
\<close>

definition stageActions :: "runtime \<Rightarrow> intent_row \<Rightarrow> next_best_action list" where
  "stageActions rt intentData =
     (case i_stage intentData of
        Discovery \<Rightarrow>
          if i_probability intentData < 0.3 then [discoveryCallAction rt intentData 0] else []
      | Qualification \<Rightarrow>
          if i_probability intentData > 0.7 then [sendProposalAction rt intentData 0] else []
      | Proposal \<Rightarrow>
          (let daysInStage = calculateDaysInStage rt (i_updated_at intentData) (i_stage intentData)
           in if daysInStage > 14 then [proposalFollowUpAction rt intentData daysInStage 0] else [])
      | Negotiation \<Rightarrow> [negotiationMeetingAction rt intentData 0]
      | ClosedWon \<Rightarrow> []
      | ClosedLost \<Rightarrow> [])"

text \<open>The value-based rule that follows the switch, with its check for a meeting already present.\<close>

definition valueActions :: "runtime \<Rightarrow> intent_row \<Rightarrow> next_best_action list \<Rightarrow> next_best_action list" where
  "valueActions rt intentData actions =
     (if i_value intentData > 100000 \<and> \<not> list_ex (\<lambda>a. nba_type a = ActMeeting) actions
      then actions @ [executiveMeetingAction rt intentData (length actions)]
      else actions)"

definition generateNextBestActions :: "runtime \<Rightarrow> intent_row \<Rightarrow> next_best_action list" where
  "generateNextBestActions rt intentData =
     array_sort compareActions (valueActions rt intentData (stageActions rt intentData))"

section \<open>Telemetry\<close>

text \<open>An entry of the static \<^verbatim>\<open>PerformanceMonitor.measurements\<close> array.\<close>

record measurement =
  m_operation :: string
  m_duration :: real
  m_timestamp :: int
  m_tags :: metadata

text \<open>\<^verbatim>\<open>xs.slice(-n)\<close>: the last \<open>n\<close> elements, or all of them when there are fewer.\<close>

definition slice_last :: "nat \<Rightarrow> 'a list \<Rightarrow> 'a list" where
  "slice_last n xs = drop (length xs - n) xs"

text \<open>
  \<^verbatim>\<open>PerformanceMonitor.record\<close>, with the buffer passed in and returned: push the entry, then
  keep only the last 1000 when the buffer has grown beyond that.
\<close>

definition PerformanceMonitor_record ::
  "runtime \<Rightarrow> string \<Rightarrow> real \<Rightarrow> metadata \<Rightarrow> measurement list \<Rightarrow> measurement list" where
  "PerformanceMonitor_record rt operation duration tags measurements =
     (let pushed = measurements @
            [\<lparr> m_operation = operation, m_duration = duration,
               m_timestamp = now rt, m_tags = tags \<rparr>]
      in if length pushed > 1000 then slice_last 1000 pushed else pushed)"

section \<open>Pipeline analytics\<close>

text \<open>
  A row of the open-pipeline fetch of \<^verbatim>\<open>getPipelineAnalytics\<close>. Its select names
  \<^verbatim>\<open>stage\<close>, \<^verbatim>\<open>value\<close>, \<^verbatim>\<open>probability\<close>, \<^verbatim>\<open>created_at\<close> and \<^verbatim>\<open>updated_at\<close>;
  \<^verbatim>\<open>generateForecasting\<close> also reads \<^verbatim>\<open>expected_close_date\<close>, which is \<open>None\<close> on a
  row that does not carry it.
\<close>

record pipeline_row =
  p_stage :: intent_stage
  p_value :: real
  p_probability :: real
  p_created_at :: int
  p_updated_at :: int
  p_expected_close_date :: "int option"

record stage_metrics =
  sm_stage :: intent_stage
  sm_count :: nat
  sm_total_value :: real
  sm_avg_value :: real
  sm_avg_probability :: real
  sm_avg_days_in_stage :: real

record velocity_metrics =
  vm_avg_days_to_close :: real
  vm_avg_days_discovery_to_qualification :: real
  vm_avg_days_qualification_to_proposal :: real
  vm_avg_days_proposal_to_negotiation :: real
  vm_avg_days_negotiation_to_close :: real

record forecasting =
  fc_next_30_days :: real
  fc_next_60_days :: real
  fc_next_90_days :: real
  fc_confidence :: real

record pipeline_analytics =
  pa_total_intents :: nat
  pa_total_pipeline_value :: real
  pa_weighted_pipeline_value :: real
  pa_avg_deal_size :: real
  pa_overall_conversion_rate :: real
  pa_stage_metrics :: "stage_metrics list"
  pa_velocity_metrics :: velocity_metrics
  pa_forecasting :: forecasting

text \<open>The body of the \<^verbatim>\<open>stages.map\<close> callback of \<^verbatim>\<open>calculateStageMetrics\<close>; \<^verbatim>\<open>reduce\<close> is \<open>foldl\<close>.\<close>

definition stageMetricsOf :: "runtime \<Rightarrow> pipeline_row list \<Rightarrow> intent_stage \<Rightarrow> stage_metrics" where
  "stageMetricsOf rt intents stage =
     (let stageIntents = filter (\<lambda>i. p_stage i = stage) intents;
          count = length stageIntents;
          totalValue = foldl (\<lambda>sum i. sum + p_value i) 0 stageIntents;
          avgValue = (if count > 0 then totalValue / real count else 0);
          avgProbability =
            (if count > 0
             then foldl (\<lambda>sum i. sum + p_probability i) 0 stageIntents / real count else 0);
          avgDaysInStage =
            (if count > 0
             then foldl (\<lambda>sum i. sum + real_of_int (calculateDaysInStage rt (p_updated_at i) (p_stage i)))
                    0 stageIntents / real count
             else 0)
      in \<lparr> sm_stage = stage, sm_count = count, sm_total_value = totalValue,
           sm_avg_value = avgValue, sm_avg_probability = avgProbability,
           sm_avg_days_in_stage = avgDaysInStage \<rparr>)"

definition calculateStageMetrics :: "runtime \<Rightarrow> pipeline_row list \<Rightarrow> stage_metrics list" where
  "calculateStageMetrics rt intents =
     map (stageMetricsOf rt intents) [Discovery, Qualification, Proposal, Negotiation, ClosedWon]"

definition calculateVelocityMetrics :: velocity_metrics where
  "calculateVelocityMetrics =
     \<lparr> vm_avg_days_to_close = 45,
       vm_avg_days_discovery_to_qualification = 7,
       vm_avg_days_qualification_to_proposal = 14,
       vm_avg_days_proposal_to_negotiation = 10,
       vm_avg_days_negotiation_to_close = 14 \<rparr>"

text \<open>
  The filter callback of \<^verbatim>\<open>generateForecasting\<close>:
  \<^verbatim>\<open>i.expected_close_date && new Date(i.expected_close_date) <= limit\<close>.
\<close>

definition closesBy :: "int \<Rightarrow> pipeline_row \<Rightarrow> bool" where
  "closesBy limit i =
     (case p_expected_close_date i of Some closeDate \<Rightarrow> closeDate \<le> limit | None \<Rightarrow> False)"

definition generateForecasting :: "runtime \<Rightarrow> pipeline_row list \<Rightarrow> forecasting" where
  "generateForecasting rt intents =
     (let next30 = now rt + 30 * 24 * 60 * 60 * 1000;
          next60 = now rt + 60 * 24 * 60 * 60 * 1000;
          next90 = now rt + 90 * 24 * 60 * 60 * 1000;
          forecast30 = foldl (\<lambda>sum i. sum + p_value i * p_probability i) 0
                         (filter (closesBy next30) intents);
          forecast60 = foldl (\<lambda>sum i. sum + p_value i * p_probability i) 0
                         (filter (closesBy next60) intents);
          forecast90 = foldl (\<lambda>sum i. sum + p_value i * p_probability i) 0
                         (filter (closesBy next90) intents)
      in \<lparr> fc_next_30_days = forecast30, fc_next_60_days = forecast60,
           fc_next_90_days = forecast90, fc_confidence = 0.82 \<rparr>)"

section \<open>Service shell\<close>

text \<open>
  Exceptions are values: \<^verbatim>\<open>ZodError\<close> from a schema's \<^verbatim>\<open>parse\<close>, \<^verbatim>\<open>Error\<close> with the
  message the service builds, \<^verbatim>\<open>TypeError\<close> from reading a property of \<^verbatim>\<open>null\<close>.
\<close>

datatype error = ZodError | Error string | TypeError

text \<open>\<^verbatim>\<open>error instanceof Error ? error.message : 'Unknown error'\<close>; all three are \<^verbatim>\<open>Error\<close>s.\<close>

fun error_message :: "runtime \<Rightarrow> error \<Rightarrow> string" where
  "error_message rt ZodError = zodErrorMessage rt"
| "error_message rt (Error message) = message"
| "error_message rt TypeError = typeErrorMessage rt"

record request_context =
  orgId :: string
  userId :: "string option"
  requestId :: string
  userAgent :: "string option"
  ip :: "string option"

text \<open>
  The requests a service sends to the database, in the order sent: the two
  \<^verbatim>\<open>rpc('set_config', ...)\<close> calls of \<^verbatim>\<open>setOrgContext\<close> and \<^verbatim>\<open>clearOrgContext\<close>, and a
  select with the filters the query builder accumulated (the column list is left out).
\<close>

datatype query_clause =
    QEq string json | QNeq string json | QGt string json | QGte string json | QLte string json
  | QTextSearch string string | QOverlaps string "string list" | QIn string "string list"
  | QOrder string bool | QLimit real | QSingle

datatype db_call = SetOrgContextRpc string | ClearOrgContextRpc | Select string "query_clause list"

text \<open>What the database answers: the \<^verbatim>\<open>error\<close> of an rpc, and \<^verbatim>\<open>{ data, error, count }\<close> of a select.\<close>

record pg_error =
  pe_message :: string
  pe_code :: string

record 'a select_reply =
  sr_data :: "'a option"
  sr_error :: "pg_error option"
  sr_count :: "nat option"

text \<open>
  The state the services share: the session setting \<^verbatim>\<open>app.current_org_id\<close>, the
  measurements buffer of \<^verbatim>\<open>PerformanceMonitor\<close>, and the requests sent so far.
\<close>

record world =
  w_org_context :: string
  w_measurements :: "measurement list"
  w_db_calls :: "db_call list"

definition setOrgContext :: "string \<Rightarrow> pg_error option \<Rightarrow> world \<Rightarrow> (error + unit) \<times> world" where
  "setOrgContext org reply w =
     (let w1 = w\<lparr>w_db_calls := w_db_calls w @ [SetOrgContextRpc org]\<rparr>
      in case reply of
           Some err \<Rightarrow> (Inl (Error (''Failed to set org context: '' @ pe_message err)), w1)
         | None \<Rightarrow> (Inr (), w1\<lparr>w_org_context := org\<rparr>))"

text \<open>\<^verbatim>\<open>clearOrgContext\<close> only warns when the rpc fails; it never throws.\<close>

definition clearOrgContext :: "pg_error option \<Rightarrow> world \<Rightarrow> world" where
  "clearOrgContext reply w =
     (let w1 = w\<lparr>w_db_calls := w_db_calls w @ [ClearOrgContextRpc]\<rparr>
      in case reply of
           Some err \<Rightarrow> w1
         | None \<Rightarrow> w1\<lparr>w_org_context := ''''\<rparr>)"

text \<open>
  The \<^verbatim>\<open>catch\<close> and \<^verbatim>\<open>finally\<close> blocks, which all five operations share but for the
  operation's name: on an exception record a sample under \<^verbatim>\<open><operation>.error\<close> and
  rethrow; then, whatever the outcome, call \<^verbatim>\<open>clearOrgContext\<close>.
\<close>

definition catchBlock :: "request_context \<Rightarrow> runtime \<Rightarrow> string \<Rightarrow> error \<Rightarrow> world \<Rightarrow> world" where
  "catchBlock ctx rt operation e w =
     w\<lparr>w_measurements :=
         PerformanceMonitor_record rt (operation @ ''.error'') (spanDuration rt)
           [(''orgId'', JStr (orgId ctx)), (''error'', JStr (error_message rt e))]
           (w_measurements w)\<rparr>"

definition catchFinally ::
  "request_context \<Rightarrow> runtime \<Rightarrow> string \<Rightarrow> pg_error option \<Rightarrow> (error + 'a) \<times> world
     \<Rightarrow> (error + 'a) \<times> world" where
  "catchFinally ctx rt operation clear_reply outcome =
     (case outcome of
        (Inr result, w) \<Rightarrow> (Inr result, clearOrgContext clear_reply w)
      | (Inl e, w) \<Rightarrow> (Inl e, clearOrgContext clear_reply (catchBlock ctx rt operation e w)))"

text \<open>The response envelopes \<^verbatim>\<open>APISuccess\<close> and \<^verbatim>\<open>PaginatedResponse\<close>.\<close>

record response_meta =
  rm_request_id :: string
  rm_timestamp :: string
  rm_org_id :: string

record pagination =
  pg_cursor :: "string option"
  pg_has_more :: bool
  pg_limit :: real
  pg_total_count :: "nat option"

record paginated_meta = response_meta +
  rm_pagination :: pagination

record 'a api_success =
  as_data :: 'a
  as_meta :: response_meta

record 'a paginated_response =
  pr_data :: "'a list"
  pr_meta :: paginated_meta

definition responseMeta :: "request_context \<Rightarrow> runtime \<Rightarrow> response_meta" where
  "responseMeta ctx rt =
     \<lparr> rm_request_id = requestId ctx, rm_timestamp = toISOString rt (now rt),
       rm_org_id = orgId ctx \<rparr>"

text \<open>
  The pagination step of both list operations: \<^verbatim>\<open>data.length > limit\<close>,
  \<^verbatim>\<open>data.slice(0, limit)\<close> (a fractional end is truncated) and the id of the last kept
  row, \<^verbatim>\<open>items[items.length - 1]?.id\<close>, when there are more rows.
\<close>

definition hasMoreRows :: "real \<Rightarrow> 'a list \<Rightarrow> bool" where
  "hasMoreRows rowLimit rows \<longleftrightarrow> real (length rows) > rowLimit"

definition sliceRows :: "real \<Rightarrow> 'a list \<Rightarrow> 'a list" where
  "sliceRows rowLimit rows = take (nat \<lfloor>rowLimit\<rfloor>) rows"

definition nextCursorOf :: "('a \<Rightarrow> string) \<Rightarrow> bool \<Rightarrow> 'a list \<Rightarrow> string option" where
  "nextCursorOf row_id hasMore items =
     (if hasMore then (case items of [] \<Rightarrow> None | _ \<Rightarrow> Some (row_id (last items))) else None)"

text \<open>\<^verbatim>\<open>count || undefined\<close>.\<close>

definition totalCountOf :: "nat option \<Rightarrow> nat option" where
  "totalCountOf c = (case c of Some n \<Rightarrow> if n = 0 then None else Some n | None \<Rightarrow> None)"

text \<open>\<^verbatim>\<open>row.interactions?.[0]?.count || 0\<close>, the joined counts being a list of numbers.\<close>

definition firstCount :: "nat list \<Rightarrow> nat" where
  "firstCount counts = (case counts of [] \<Rightarrow> 0 | c # _ \<Rightarrow> c)"

text \<open>Mapping a callback that may throw over an array: the first exception wins.\<close>

fun map_result :: "('a \<Rightarrow> error + 'b) \<Rightarrow> 'a list \<Rightarrow> error + 'b list" where
  "map_result f [] = Inr []"
| "map_result f (x # xs) =
     (case f x of
        Inl e \<Rightarrow> Inl e
      | Inr y \<Rightarrow> (case map_result f xs of Inl e \<Rightarrow> Inl e | Inr ys \<Rightarrow> Inr (y # ys)))"

subsection \<open>Intent service\<close>

text \<open>
  The caller's parameters, with the fields a schema defaults as options, and what
  \<^verbatim>\<open>IntentGetParamsSchema.parse\<close> and \<^verbatim>\<open>IntentListParamsSchema.parse\<close> return. Enum-valued
  parameters are typed, so only the checks on strings and numbers can fail.
\<close>

record intent_get_params =
  gp_id :: string
  gp_include_relationship :: "bool option"
  gp_include_interactions :: "bool option"

record validated_intent_get_params =
  vgp_id :: string
  vgp_include_relationship :: bool
  vgp_include_interactions :: bool

datatype sort_column = SortCreatedAt | SortUpdatedAt | SortValue | SortProbability | SortExpectedCloseDate

datatype sort_order = Asc | Desc

fun sort_column_name :: "sort_column \<Rightarrow> string" where
  "sort_column_name SortCreatedAt = ''created_at''"
| "sort_column_name SortUpdatedAt = ''updated_at''"
| "sort_column_name SortValue = ''value''"
| "sort_column_name SortProbability = ''probability''"
| "sort_column_name SortExpectedCloseDate = ''expected_close_date''"

fun priority_name :: "intent_priority \<Rightarrow> string" where
  "priority_name PriorityLow = ''low''"
| "priority_name PriorityMedium = ''medium''"
| "priority_name PriorityHigh = ''high''"
| "priority_name PriorityUrgent = ''urgent''"

record intent_list_params =
  lp_cursor :: "string option"
  lp_limit :: "real option"
  lp_search :: "string option"
  lp_stage :: "intent_stage option"
  lp_priority :: "intent_priority option"
  lp_relationship_id :: "string option"
  lp_min_value :: "real option"
  lp_max_value :: "real option"
  lp_min_probability :: "real option"
  lp_expected_close_before :: "string option"
  lp_expected_close_after :: "string option"
  lp_sort_by :: "sort_column option"
  lp_sort_order :: "sort_order option"

record validated_intent_list_params =
  vlp_cursor :: "string option"
  vlp_limit :: real
  vlp_search :: "string option"
  vlp_stage :: "intent_stage option"
  vlp_priority :: "intent_priority option"
  vlp_relationship_id :: "string option"
  vlp_min_value :: "real option"
  vlp_max_value :: "real option"
  vlp_min_probability :: "real option"
  vlp_expected_close_before :: "string option"
  vlp_expected_close_after :: "string option"
  vlp_sort_by :: sort_column
  vlp_sort_order :: sort_order

definition optionally :: "('a \<Rightarrow> bool) \<Rightarrow> 'a option \<Rightarrow> bool" where
  "optionally P v = (case v of None \<Rightarrow> True | Some x \<Rightarrow> P x)"

definition withDefault :: "'a \<Rightarrow> 'a option \<Rightarrow> 'a" where
  "withDefault d v = (case v of None \<Rightarrow> d | Some x \<Rightarrow> x)"

definition IntentGetParamsSchema_parse ::
  "runtime \<Rightarrow> intent_get_params \<Rightarrow> error + validated_intent_get_params" where
  "IntentGetParamsSchema_parse rt params =
     (if isUUID rt (gp_id params)
      then Inr \<lparr> vgp_id = gp_id params,
                 vgp_include_relationship = withDefault False (gp_include_relationship params),
                 vgp_include_interactions = withDefault False (gp_include_interactions params) \<rparr>
      else Inl ZodError)"

definition IntentListParamsSchema_parse ::
  "runtime \<Rightarrow> intent_list_params \<Rightarrow> error + validated_intent_list_params" where
  "IntentListParamsSchema_parse rt params =
     (if optionally (isUUID rt) (lp_cursor params)
         \<and> optionally (\<lambda>l. 1 \<le> l \<and> l \<le> 100) (lp_limit params)
         \<and> optionally (\<lambda>s. length s \<le> 255) (lp_search params)
         \<and> optionally (isUUID rt) (lp_relationship_id params)
         \<and> optionally (\<lambda>v. 0 \<le> v) (lp_min_value params)
         \<and> optionally (\<lambda>v. 0 \<le> v) (lp_max_value params)
         \<and> optionally (\<lambda>p. 0 \<le> p \<and> p \<le> 1) (lp_min_probability params)
         \<and> optionally (isDate rt) (lp_expected_close_before params)
         \<and> optionally (isDate rt) (lp_expected_close_after params)
      then Inr \<lparr> vlp_cursor = lp_cursor params,
                 vlp_limit = withDefault 20 (lp_limit params),
                 vlp_search = lp_search params,
                 vlp_stage = lp_stage params,
                 vlp_priority = lp_priority params,
                 vlp_relationship_id = lp_relationship_id params,
                 vlp_min_value = lp_min_value params,
                 vlp_max_value = lp_max_value params,
                 vlp_min_probability = lp_min_probability params,
                 vlp_expected_close_before = lp_expected_close_before params,
                 vlp_expected_close_after = lp_expected_close_after params,
                 vlp_sort_by = withDefault SortUpdatedAt (lp_sort_by params),
                 vlp_sort_order = withDefault Desc (lp_sort_order params) \<rparr>
      else Inl ZodError)"

text \<open>
  A filter the builder adds only \<^verbatim>\<open>if (value)\<close> (a string must be non-empty) or only
  \<^verbatim>\<open>if (value !== undefined)\<close>.
\<close>

definition truthy :: "string option \<Rightarrow> bool" where
  "truthy v = (case v of Some s \<Rightarrow> s \<noteq> [] | None \<Rightarrow> False)"

definition whenTruthy :: "string option \<Rightarrow> (string \<Rightarrow> query_clause) \<Rightarrow> query_clause list" where
  "whenTruthy v clause = (case v of Some s \<Rightarrow> if truthy v then [clause s] else [] | None \<Rightarrow> [])"

definition whenDefined :: "'a option \<Rightarrow> ('a \<Rightarrow> query_clause) \<Rightarrow> query_clause list" where
  "whenDefined v clause = (case v of Some x \<Rightarrow> [clause x] | None \<Rightarrow> [])"

definition intentListQuery :: "validated_intent_list_params \<Rightarrow> query_clause list" where
  "intentListQuery validatedParams =
     whenTruthy (vlp_cursor validatedParams) (\<lambda>c. QGt ''id'' (JStr c))
     @ whenTruthy (vlp_search validatedParams) (\<lambda>s. QTextSearch ''search_vector'' s)
     @ whenDefined (vlp_stage validatedParams) (\<lambda>s. QEq ''stage'' (JStr (stage_name s)))
     @ whenDefined (vlp_priority validatedParams) (\<lambda>p. QEq ''priority'' (JStr (priority_name p)))
     @ whenTruthy (vlp_relationship_id validatedParams) (\<lambda>r. QEq ''relationship_id'' (JStr r))
     @ whenDefined (vlp_min_value validatedParams) (\<lambda>v. QGte ''value'' (JNum v))
     @ whenDefined (vlp_max_value validatedParams) (\<lambda>v. QLte ''value'' (JNum v))
     @ whenDefined (vlp_min_probability validatedParams) (\<lambda>p. QGte ''probability'' (JNum p))
     @ whenTruthy (vlp_expected_close_before validatedParams) (\<lambda>d. QLte ''expected_close_date'' (JStr d))
     @ whenTruthy (vlp_expected_close_after validatedParams) (\<lambda>d. QGte ''expected_close_date'' (JStr d))
     @ [QOrder (sort_column_name (vlp_sort_by validatedParams)) (vlp_sort_order validatedParams = Asc),
        QLimit (vlp_limit validatedParams + 1)]"

text \<open>\<^verbatim>\<open>IntentResponseSchema\<close>: the object both operations build from a row, and its check.\<close>

record intent_response =
  ir_id :: string
  ir_org_id :: string
  ir_relationship_id :: string
  ir_title :: string
  ir_description :: "string option"
  ir_value :: real
  ir_currency :: string
  ir_stage :: intent_stage
  ir_priority :: intent_priority
  ir_expected_close_date :: "int option"
  ir_probability :: real
  ir_ai_insights :: "ai_insight list"
  ir_next_best_actions :: "next_best_action list"
  ir_metadata :: metadata
  ir_created_at :: int
  ir_updated_at :: int
  ir_relationship :: "relationship_summary option"
  ir_days_in_stage :: "int option"
  ir_interaction_count :: "nat option"

definition intentResponseOf ::
  "runtime \<Rightarrow> intent_row \<Rightarrow> bool \<Rightarrow> nat option \<Rightarrow> intent_response" where
  "intentResponseOf rt item includeRelationship interactionCount =
     (let aiInsights = generateAIInsights rt item;
          nextBestActions = generateNextBestActions rt item;
          daysInStage = calculateDaysInStage rt (i_updated_at item) (i_stage item)
      in \<lparr> ir_id = i_id item,
           ir_org_id = i_org_id item,
           ir_relationship_id = i_relationship_id item,
           ir_title = i_title item,
           ir_description = i_description item,
           ir_value = i_value item,
           ir_currency = i_currency item,
           ir_stage = i_stage item,
           ir_priority = i_priority item,
           ir_expected_close_date = i_expected_close_date item,
           ir_probability = i_probability item,
           ir_ai_insights = aiInsights,
           ir_next_best_actions = nextBestActions,
           ir_metadata = i_metadata item,
           ir_created_at = i_created_at item,
           ir_updated_at = i_updated_at item,
           ir_relationship = (if includeRelationship then Some (i_relationships item) else None),
           ir_days_in_stage = Some daysInStage,
           ir_interaction_count = interactionCount \<rparr>)"

definition IntentResponseSchema_parse :: "runtime \<Rightarrow> intent_response \<Rightarrow> error + intent_response" where
  "IntentResponseSchema_parse rt r =
     (if isUUID rt (ir_id r) \<and> isUUID rt (ir_org_id r) \<and> isUUID rt (ir_relationship_id r)
         \<and> optionally (\<lambda>rel. isUUID rt (rs_id rel)) (ir_relationship r)
      then Inr r else Inl ZodError)"

text \<open>The \<^verbatim>\<open>try\<close> block of \<^verbatim>\<open>getIntent\<close>, then the whole operation.\<close>

definition getIntent_try ::
  "request_context \<Rightarrow> runtime \<Rightarrow> pg_error option \<Rightarrow> intent_row select_reply
     \<Rightarrow> intent_get_params \<Rightarrow> world \<Rightarrow> (error + intent_response api_success) \<times> world" where
  "getIntent_try ctx rt set_reply reply params w =
     (case IntentGetParamsSchema_parse rt params of
        Inl e \<Rightarrow> (Inl e, w)
      | Inr validatedParams \<Rightarrow>
          (case setOrgContext (orgId ctx) set_reply w of
             (Inl e, w1) \<Rightarrow> (Inl e, w1)
           | (Inr _, w1) \<Rightarrow>
               (let w2 = w1\<lparr>w_db_calls := w_db_calls w1 @
                           [Select ''intents'' [QEq ''id'' (JStr (vgp_id validatedParams)), QSingle]]\<rparr>
                in case sr_error reply of
                     Some err \<Rightarrow> (Inl (Error (''Database query failed: '' @ pe_message err)), w2)
                   | None \<Rightarrow>
                       (case sr_data reply of
                          None \<Rightarrow> (Inl (Error ''Intent not found''), w2)
                        | Some row \<Rightarrow>
                            (let interactionCount =
                                   (if vgp_include_interactions validatedParams
                                    then Some (firstCount (i_interactions row)) else None)
                             in case IntentResponseSchema_parse rt
                                       (intentResponseOf rt row
                                          (vgp_include_relationship validatedParams) interactionCount) of
                                  Inl e \<Rightarrow> (Inl e, w2)
                                | Inr intent \<Rightarrow>
                                    (Inr \<lparr> as_data = intent, as_meta = responseMeta ctx rt \<rparr>,
                                     w2\<lparr>w_measurements :=
                                          PerformanceMonitor_record rt ''intent.get'' (spanDuration rt)
                                            [(''orgId'', JStr (orgId ctx)),
                                             (''intentId'', JStr (vgp_id validatedParams)),
                                             (''includeRelationship'',
                                                JBool (vgp_include_relationship validatedParams))]
                                            (w_measurements w2)\<rparr>))))))"

definition getIntent ::
  "request_context \<Rightarrow> runtime \<Rightarrow> pg_error option \<Rightarrow> intent_row select_reply \<Rightarrow> pg_error option
     \<Rightarrow> intent_get_params \<Rightarrow> world \<Rightarrow> (error + intent_response api_success) \<times> world" where
  "getIntent ctx rt set_reply reply clear_reply params w =
     catchFinally ctx rt ''intent.get'' clear_reply (getIntent_try ctx rt set_reply reply params w)"

text \<open>The \<^verbatim>\<open>try\<close> block of \<^verbatim>\<open>listIntents\<close>, then the whole operation.\<close>

definition listIntents_try ::
  "request_context \<Rightarrow> runtime \<Rightarrow> pg_error option \<Rightarrow> intent_row list select_reply
     \<Rightarrow> intent_list_params \<Rightarrow> world \<Rightarrow> (error + intent_response paginated_response) \<times> world" where
  "listIntents_try ctx rt set_reply reply params w =
     (case IntentListParamsSchema_parse rt params of
        Inl e \<Rightarrow> (Inl e, w)
      | Inr validatedParams \<Rightarrow>
          (case setOrgContext (orgId ctx) set_reply w of
             (Inl e, w1) \<Rightarrow> (Inl e, w1)
           | (Inr _, w1) \<Rightarrow>
               (let w2 = w1\<lparr>w_db_calls := w_db_calls w1 @
                           [Select ''intents'' (intentListQuery validatedParams)]\<rparr>
                in case sr_error reply of
                     Some err \<Rightarrow> (Inl (Error (''Database query failed: '' @ pe_message err)), w2)
                   | None \<Rightarrow>
                       (case sr_data reply of
                          None \<Rightarrow> (Inl TypeError, w2)
                        | Some rows \<Rightarrow>
                            (let hasMore = hasMoreRows (vlp_limit validatedParams) rows;
                                 intents = sliceRows (vlp_limit validatedParams) rows;
                                 nextCursor = nextCursorOf i_id hasMore intents
                             in case map_result
                                       (\<lambda>item. IntentResponseSchema_parse rt
                                                 (intentResponseOf rt item True None))
                                       intents of
                                  Inl e \<Rightarrow> (Inl e, w2)
                                | Inr validatedIntents \<Rightarrow>
                                    (Inr \<lparr> pr_data = validatedIntents,
                                           pr_meta =
                                             \<lparr> rm_request_id = requestId ctx,
                                               rm_timestamp = toISOString rt (now rt),
                                               rm_org_id = orgId ctx,
                                               rm_pagination =
                                                 \<lparr> pg_cursor = nextCursor,
                                                   pg_has_more = hasMore,
                                                   pg_limit = vlp_limit validatedParams,
                                                   pg_total_count = totalCountOf (sr_count reply) \<rparr> \<rparr> \<rparr>,
                                     w2\<lparr>w_measurements :=
                                          PerformanceMonitor_record rt ''intent.list'' (spanDuration rt)
                                            [(''orgId'', JStr (orgId ctx)),
                                             (''resultCount'', JNum (real (length validatedIntents))),
                                             (''hasSearch'',
                                                JBool (truthy (vlp_search validatedParams))),
                                             (''hasFilters'',
                                                JBool (vlp_stage validatedParams \<noteq> None
                                                       \<or> vlp_priority validatedParams \<noteq> None))]
                                            (w_measurements w2)\<rparr>))))))"

definition listIntents ::
  "request_context \<Rightarrow> runtime \<Rightarrow> pg_error option \<Rightarrow> intent_row list select_reply \<Rightarrow> pg_error option
     \<Rightarrow> intent_list_params \<Rightarrow> world \<Rightarrow> (error + intent_response paginated_response) \<times> world" where
  "listIntents ctx rt set_reply reply clear_reply params w =
     catchFinally ctx rt ''intent.list'' clear_reply (listIntents_try ctx rt set_reply reply params w)"

subsection \<open>Relationship service\<close>

datatype relationship_type = Individual | Company

fun relationship_type_name :: "relationship_type \<Rightarrow> string" where
  "relationship_type_name Individual = ''individual''"
| "relationship_type_name Company = ''company''"

text \<open>A row of \<^verbatim>\<open>relationships\<close> with the two joined counts, and \<^verbatim>\<open>RelationshipResponseSchema\<close>.\<close>

record relationship_row =
  r_id :: string
  r_org_id :: string
  r_type :: relationship_type
  r_name :: string
  r_email :: "string option"
  r_phone :: "string option"
  r_company :: "string option"
  r_title :: "string option"
  r_avatar_url :: "string option"
  r_tags :: "string list"
  r_metadata :: metadata
  r_propensity_score :: real
  r_last_interaction_at :: "int option"
  r_created_at :: int
  r_updated_at :: int
  r_interactions :: "nat list"
  r_signals :: "nat list"

record relationship_response =
  rr_id :: string
  rr_org_id :: string
  rr_type :: relationship_type
  rr_name :: string
  rr_email :: "string option"
  rr_phone :: "string option"
  rr_company :: "string option"
  rr_title :: "string option"
  rr_avatar_url :: "string option"
  rr_tags :: "string list"
  rr_metadata :: metadata
  rr_propensity_score :: real
  rr_last_interaction_at :: "int option"
  rr_created_at :: int
  rr_updated_at :: int

record relationship_get_params =
  rgp_id :: string

record relationship_list_params =
  rlp_cursor :: "string option"
  rlp_limit :: "real option"
  rlp_search :: "string option"
  rlp_tags :: "string list option"
  rlp_type :: "relationship_type option"
  rlp_min_propensity :: "real option"

record validated_relationship_list_params =
  vrlp_cursor :: "string option"
  vrlp_limit :: real
  vrlp_search :: "string option"
  vrlp_tags :: "string list option"
  vrlp_type :: "relationship_type option"
  vrlp_min_propensity :: "real option"

definition RelationshipGetParamsSchema_parse ::
  "runtime \<Rightarrow> relationship_get_params \<Rightarrow> error + relationship_get_params" where
  "RelationshipGetParamsSchema_parse rt params =
     (if isUUID rt (rgp_id params) then Inr params else Inl ZodError)"

definition RelationshipListParamsSchema_parse ::
  "runtime \<Rightarrow> relationship_list_params \<Rightarrow> error + validated_relationship_list_params" where
  "RelationshipListParamsSchema_parse rt params =
     (if optionally (isUUID rt) (rlp_cursor params)
         \<and> optionally (\<lambda>l. 1 \<le> l \<and> l \<le> 100) (rlp_limit params)
         \<and> optionally (\<lambda>s. length s \<le> 255) (rlp_search params)
         \<and> optionally (\<lambda>p. 0 \<le> p \<and> p \<le> 1) (rlp_min_propensity params)
      then Inr \<lparr> vrlp_cursor = rlp_cursor params,
                 vrlp_limit = withDefault 20 (rlp_limit params),
                 vrlp_search = rlp_search params,
                 vrlp_tags = rlp_tags params,
                 vrlp_type = rlp_type params,
                 vrlp_min_propensity = rlp_min_propensity params \<rparr>
      else Inl ZodError)"

definition relationshipListQuery :: "validated_relationship_list_params \<Rightarrow> query_clause list" where
  "relationshipListQuery validatedParams =
     whenTruthy (vrlp_cursor validatedParams) (\<lambda>c. QGt ''id'' (JStr c))
     @ whenTruthy (vrlp_search validatedParams) (\<lambda>s. QTextSearch ''search_vector'' s)
     @ whenDefined (vrlp_type validatedParams) (\<lambda>t. QEq ''type'' (JStr (relationship_type_name t)))
     @ (case vrlp_tags validatedParams of
          Some tags \<Rightarrow> if length tags > 0 then [QOverlaps ''tags'' tags] else []
        | None \<Rightarrow> [])
     @ whenDefined (vrlp_min_propensity validatedParams) (\<lambda>p. QGte ''propensity_score'' (JNum p))
     @ [QOrder ''updated_at'' False, QLimit (vrlp_limit validatedParams + 1)]"

text \<open>
  \<^verbatim>\<open>{ ...metadata, interaction_count: a, signal_count: b }\<close>: a key already present keeps
  its place and takes the new value, a new key goes to the end.
\<close>

fun object_set :: "string \<Rightarrow> json \<Rightarrow> metadata \<Rightarrow> metadata" where
  "object_set k v [] = [(k, v)]"
| "object_set k v ((k', v') # kvs) =
     (if k' = k then (k, v) # kvs else (k', v') # object_set k v kvs)"

definition relationshipResponseOf :: "relationship_row \<Rightarrow> relationship_response" where
  "relationshipResponseOf item =
     \<lparr> rr_id = r_id item,
       rr_org_id = r_org_id item,
       rr_type = r_type item,
       rr_name = r_name item,
       rr_email = r_email item,
       rr_phone = r_phone item,
       rr_company = r_company item,
       rr_title = r_title item,
       rr_avatar_url = r_avatar_url item,
       rr_tags = r_tags item,
       rr_metadata =
         object_set ''signal_count'' (JNum (real (firstCount (r_signals item))))
           (object_set ''interaction_count'' (JNum (real (firstCount (r_interactions item))))
              (r_metadata item)),
       rr_propensity_score = r_propensity_score item,
       rr_last_interaction_at = r_last_interaction_at item,
       rr_created_at = r_created_at item,
       rr_updated_at = r_updated_at item \<rparr>"

definition RelationshipResponseSchema_parse ::
  "runtime \<Rightarrow> relationship_response \<Rightarrow> error + relationship_response" where
  "RelationshipResponseSchema_parse rt r =
     (if isUUID rt (rr_id r) \<and> isUUID rt (rr_org_id r)
         \<and> 0 \<le> rr_propensity_score r \<and> rr_propensity_score r \<le> 1
      then Inr r else Inl ZodError)"

definition getRelationship_try ::
  "request_context \<Rightarrow> runtime \<Rightarrow> pg_error option \<Rightarrow> relationship_row select_reply
     \<Rightarrow> relationship_get_params \<Rightarrow> world \<Rightarrow> (error + relationship_response api_success) \<times> world" where
  "getRelationship_try ctx rt set_reply reply params w =
     (case RelationshipGetParamsSchema_parse rt params of
        Inl e \<Rightarrow> (Inl e, w)
      | Inr validatedParams \<Rightarrow>
          (case setOrgContext (orgId ctx) set_reply w of
             (Inl e, w1) \<Rightarrow> (Inl e, w1)
           | (Inr _, w1) \<Rightarrow>
               (let w2 = w1\<lparr>w_db_calls := w_db_calls w1 @
                           [Select ''relationships'' [QEq ''id'' (JStr (rgp_id validatedParams)), QSingle]]\<rparr>
                in case sr_error reply of
                     Some err \<Rightarrow> (Inl (Error (''Database query failed: '' @ pe_message err)), w2)
                   | None \<Rightarrow>
                       (case sr_data reply of
                          None \<Rightarrow> (Inl (Error ''Relationship not found''), w2)
                        | Some row \<Rightarrow>
                            (case RelationshipResponseSchema_parse rt (relationshipResponseOf row) of
                               Inl e \<Rightarrow> (Inl e, w2)
                             | Inr relationship \<Rightarrow>
                                 (Inr \<lparr> as_data = relationship, as_meta = responseMeta ctx rt \<rparr>,
                                  w2\<lparr>w_measurements :=
                                       PerformanceMonitor_record rt ''relationship.get'' (spanDuration rt)
                                         [(''orgId'', JStr (orgId ctx)),
                                          (''relationshipId'', JStr (rgp_id validatedParams))]
                                         (w_measurements w2)\<rparr>))))))"

definition getRelationship ::
  "request_context \<Rightarrow> runtime \<Rightarrow> pg_error option \<Rightarrow> relationship_row select_reply \<Rightarrow> pg_error option
     \<Rightarrow> relationship_get_params \<Rightarrow> world \<Rightarrow> (error + relationship_response api_success) \<times> world" where
  "getRelationship ctx rt set_reply reply clear_reply params w =
     catchFinally ctx rt ''relationship.get'' clear_reply
       (getRelationship_try ctx rt set_reply reply params w)"

definition listRelationships_try ::
  "request_context \<Rightarrow> runtime \<Rightarrow> pg_error option \<Rightarrow> relationship_row list select_reply
     \<Rightarrow> relationship_list_params \<Rightarrow> world
     \<Rightarrow> (error + relationship_response paginated_response) \<times> world" where
  "listRelationships_try ctx rt set_reply reply params w =
     (case RelationshipListParamsSchema_parse rt params of
        Inl e \<Rightarrow> (Inl e, w)
      | Inr validatedParams \<Rightarrow>
          (case setOrgContext (orgId ctx) set_reply w of
             (Inl e, w1) \<Rightarrow> (Inl e, w1)
           | (Inr _, w1) \<Rightarrow>
               (let w2 = w1\<lparr>w_db_calls := w_db_calls w1 @
                           [Select ''relationships'' (relationshipListQuery validatedParams)]\<rparr>
                in case sr_error reply of
                     Some err \<Rightarrow> (Inl (Error (''Database query failed: '' @ pe_message err)), w2)
                   | None \<Rightarrow>
                       (case sr_data reply of
                          None \<Rightarrow> (Inl TypeError, w2)
                        | Some rows \<Rightarrow>
                            (let hasMore = hasMoreRows (vrlp_limit validatedParams) rows;
                                 relationships = sliceRows (vrlp_limit validatedParams) rows;
                                 nextCursor = nextCursorOf r_id hasMore relationships
                             in case map_result
                                       (\<lambda>item. RelationshipResponseSchema_parse rt
                                                 (relationshipResponseOf item))
                                       relationships of
                                  Inl e \<Rightarrow> (Inl e, w2)
                                | Inr validatedRelationships \<Rightarrow>
                                    (Inr \<lparr> pr_data = validatedRelationships,
                                           pr_meta =
                                             \<lparr> rm_request_id = requestId ctx,
                                               rm_timestamp = toISOString rt (now rt),
                                               rm_org_id = orgId ctx,
                                               rm_pagination =
                                                 \<lparr> pg_cursor = nextCursor,
                                                   pg_has_more = hasMore,
                                                   pg_limit = vrlp_limit validatedParams,
                                                   pg_total_count = totalCountOf (sr_count reply) \<rparr> \<rparr> \<rparr>,
                                     w2\<lparr>w_measurements :=
                                          PerformanceMonitor_record rt ''relationship.list'' (spanDuration rt)
                                            [(''orgId'', JStr (orgId ctx)),
                                             (''resultCount'', JNum (real (length validatedRelationships))),
                                             (''hasSearch'', JBool (truthy (vrlp_search validatedParams)))]
                                            (w_measurements w2)\<rparr>))))))"

definition listRelationships ::
  "request_context \<Rightarrow> runtime \<Rightarrow> pg_error option \<Rightarrow> relationship_row list select_reply
     \<Rightarrow> pg_error option \<Rightarrow> relationship_list_params \<Rightarrow> world
     \<Rightarrow> (error + relationship_response paginated_response) \<times> world" where
  "listRelationships ctx rt set_reply reply clear_reply params w =
     catchFinally ctx rt ''relationship.list'' clear_reply
       (listRelationships_try ctx rt set_reply reply params w)"

subsection \<open>Pipeline analytics operation\<close>

text \<open>
  \<^verbatim>\<open>getPipelineAnalytics\<close> takes no parameters and sends two selects: the rows that are
  not closed-lost, then the stage of every closed row. A reply with neither rows nor error
  makes the code read a property of \<^verbatim>\<open>null\<close>. The analytics object holds numbers only, so
  \<^verbatim>\<open>PipelineAnalyticsSchema.parse\<close> returns it unchanged.
\<close>

definition getPipelineAnalytics_try ::
  "request_context \<Rightarrow> runtime \<Rightarrow> pg_error option \<Rightarrow> pipeline_row list select_reply
     \<Rightarrow> intent_stage list select_reply \<Rightarrow> world \<Rightarrow> (error + pipeline_analytics api_success) \<times> world" where
  "getPipelineAnalytics_try ctx rt set_reply stage_reply closed_reply w =
     (case setOrgContext (orgId ctx) set_reply w of
        (Inl e, w1) \<Rightarrow> (Inl e, w1)
      | (Inr _, w1) \<Rightarrow>
          (let w2 = w1\<lparr>w_db_calls := w_db_calls w1 @
                      [Select ''intents'' [QNeq ''stage'' (JStr ''closed-lost'')]]\<rparr>
           in case sr_error stage_reply of
                Some err \<Rightarrow> (Inl (Error (''Failed to get stage data: '' @ pe_message err)), w2)
              | None \<Rightarrow>
                  (case sr_data stage_reply of
                     None \<Rightarrow> (Inl TypeError, w2)
                   | Some stageData \<Rightarrow>
                       (let stageMetrics = calculateStageMetrics rt stageData;
                            velocityMetrics = calculateVelocityMetrics;
                            forecast = generateForecasting rt stageData;
                            totalIntents = length stageData;
                            totalPipelineValue = foldl (\<lambda>sum intent. sum + p_value intent) 0 stageData;
                            weightedPipelineValue =
                              foldl (\<lambda>sum intent. sum + p_value intent * p_probability intent) 0 stageData;
                            avgDealSize =
                              (if totalIntents > 0 then totalPipelineValue / real totalIntents else 0);
                            w3 = w2\<lparr>w_db_calls := w_db_calls w2 @
                                   [Select ''intents'' [QIn ''stage'' [''closed-won'', ''closed-lost'']]]\<rparr>
                        in case sr_error closed_reply of
                             Some err \<Rightarrow>
                               (Inl (Error (''Failed to get closed deals: '' @ pe_message err)), w3)
                           | None \<Rightarrow>
                               (case sr_data closed_reply of
                                  None \<Rightarrow> (Inl TypeError, w3)
                                | Some closedData \<Rightarrow>
                                    (let totalClosed = length closedData;
                                         totalWon = length (filter (\<lambda>d. d = ClosedWon) closedData);
                                         overallConversionRate =
                                           (if totalClosed > 0
                                            then real totalWon / real totalClosed else 0);
                                         analytics =
                                           \<lparr> pa_total_intents = totalIntents,
                                             pa_total_pipeline_value = totalPipelineValue,
                                             pa_weighted_pipeline_value = weightedPipelineValue,
                                             pa_avg_deal_size = avgDealSize,
                                             pa_overall_conversion_rate = overallConversionRate,
                                             pa_stage_metrics = stageMetrics,
                                             pa_velocity_metrics = velocityMetrics,
                                             pa_forecasting = forecast \<rparr>
                                     in (Inr \<lparr> as_data = analytics, as_meta = responseMeta ctx rt \<rparr>,
                                         w3\<lparr>w_measurements :=
                                              PerformanceMonitor_record rt ''intent.pipeline_analytics''
                                                (spanDuration rt)
                                                [(''orgId'', JStr (orgId ctx)),
                                                 (''intentCount'', JNum (real totalIntents))]
                                                (w_measurements w3)\<rparr>)))))))"

definition getPipelineAnalytics ::
  "request_context \<Rightarrow> runtime \<Rightarrow> pg_error option \<Rightarrow> pipeline_row list select_reply
     \<Rightarrow> intent_stage list select_reply \<Rightarrow> pg_error option \<Rightarrow> world
     \<Rightarrow> (error + pipeline_analytics api_success) \<times> world" where
  "getPipelineAnalytics ctx rt set_reply stage_reply closed_reply clear_reply w =
     catchFinally ctx rt ''intent.pipeline_analytics'' clear_reply
       (getPipelineAnalytics_try ctx rt set_reply stage_reply closed_reply w)"

section \<open>Notions used to state the properties\<close>

text \<open>The order the comparator of \<^verbatim>\<open>actions.sort\<close> induces: \<open>a\<close> may stand before \<open>b\<close>.\<close>

definition action_le :: "next_best_action \<Rightarrow> next_best_action \<Rightarrow> bool" where
  "action_le a b \<longleftrightarrow> compareActions a b \<le> 0"

text \<open>Actions and insights are recognised by their title, meetings by their type.\<close>

definition isExecutiveMeeting :: "next_best_action \<Rightarrow> bool" where
  "isExecutiveMeeting a \<longleftrightarrow> nba_title a = ''Executive Meeting''"

definition isMeeting :: "next_best_action \<Rightarrow> bool" where
  "isMeeting a \<longleftrightarrow> nba_type a = ActMeeting"

definition isHighConversion :: "ai_insight \<Rightarrow> bool" where
  "isHighConversion x \<longleftrightarrow> ins_title x = ''High Conversion Probability Detected''"

definition isClosingSoon :: "ai_insight \<Rightarrow> bool" where
  "isClosingSoon x \<longleftrightarrow> ins_title x = ''High-Value Deal Closing Soon''"

text \<open>
  A sequence of calls to \<^verbatim>\<open>PerformanceMonitor.record\<close>, each with the runtime it ran in and
  its three arguments; the sample a call stores; and the buffer after the whole sequence.
\<close>

type_synonym record_call = "runtime \<times> string \<times> real \<times> metadata"

fun sample_of :: "record_call \<Rightarrow> measurement" where
  "sample_of (rt, operation, duration, tags) =
     \<lparr> m_operation = operation, m_duration = duration, m_timestamp = now rt, m_tags = tags \<rparr>"

fun record_all :: "record_call list \<Rightarrow> measurement list \<Rightarrow> measurement list" where
  "record_all [] buffer = buffer"
| "record_all ((rt, operation, duration, tags) # calls) buffer =
     record_all calls (PerformanceMonitor_record rt operation duration tags buffer)"

text \<open>
  The forecast as the specification words it: an intent's expected-close date falls within
  a horizon of \<open>days\<close> days when the intent has such a date and it lies between now and
  \<open>days\<close> days from now; the intent then contributes value times probability, and nothing
  otherwise. \<open>forecastAsWorded\<close> is the sum of these contributions.
\<close>

definition withinHorizon :: "runtime \<Rightarrow> int \<Rightarrow> pipeline_row \<Rightarrow> bool" where
  "withinHorizon rt days i =
     (case p_expected_close_date i of
        None \<Rightarrow> False
      | Some closeDate \<Rightarrow> now rt \<le> closeDate \<and> closeDate \<le> now rt + days * 86400000)"

definition horizonContribution :: "runtime \<Rightarrow> int \<Rightarrow> pipeline_row \<Rightarrow> real" where
  "horizonContribution rt days i =
     (if withinHorizon rt days i then p_value i * p_probability i else 0)"

definition forecastAsWorded :: "runtime \<Rightarrow> int \<Rightarrow> pipeline_row list \<Rightarrow> real" where
  "forecastAsWorded rt days intents = sum_list (map (horizonContribution rt days) intents)"

text \<open>
  What the filter of \<^verbatim>\<open>generateForecasting\<close> admits: an expected-close date no later than
  \<open>days\<close> days from now, however long ago it may lie. \<open>forecastOfDue\<close> is the sum of value
  times probability over the intents so admitted, and \<open>notOverdue\<close> says that an intent's
  expected-close date, if it has one, is not in the past.
\<close>

definition dueByHorizon :: "runtime \<Rightarrow> int \<Rightarrow> pipeline_row \<Rightarrow> bool" where
  "dueByHorizon rt days i =
     (case p_expected_close_date i of
        None \<Rightarrow> False
      | Some closeDate \<Rightarrow> closeDate \<le> now rt + days * 86400000)"

definition dueContribution :: "runtime \<Rightarrow> int \<Rightarrow> pipeline_row \<Rightarrow> real" where
  "dueContribution rt days i =
     (if dueByHorizon rt days i then p_value i * p_probability i else 0)"

definition forecastOfDue :: "runtime \<Rightarrow> int \<Rightarrow> pipeline_row list \<Rightarrow> real" where
  "forecastOfDue rt days intents = sum_list (map (dueContribution rt days) intents)"

definition notOverdue :: "runtime \<Rightarrow> pipeline_row \<Rightarrow> bool" where
  "notOverdue rt i =
     (case p_expected_close_date i of None \<Rightarrow> True | Some closeDate \<Rightarrow> now rt \<le> closeDate)"

text \<open>
  Of the requests an operation sent on top of those sent before it: \<open>clearedOnExit\<close> says
  the last one is the clear call and no earlier one is; \<open>sendsNoClear\<close> says none is.
\<close>

definition clearedOnExit :: "world \<Rightarrow> 'a \<times> world \<Rightarrow> bool" where
  "clearedOnExit w out =
     (let sent = drop (length (w_db_calls w)) (w_db_calls (snd out))
      in w_db_calls (snd out) = w_db_calls w @ sent
         \<and> sent \<noteq> []
         \<and> last sent = ClearOrgContextRpc
         \<and> ClearOrgContextRpc \<notin> set (butlast sent))"

definition sendsNoClear :: "world \<Rightarrow> 'a \<times> world \<Rightarrow> bool" where
  "sendsNoClear w out =
     (let sent = drop (length (w_db_calls w)) (w_db_calls (snd out))
      in w_db_calls (snd out) = w_db_calls w @ sent \<and> ClearOrgContextRpc \<notin> set sent)"

text \<open>
  What a list response must look like for a limit of \<open>N\<close> over the fetched \<open>rows\<close>: with
  more than \<open>N\<close> rows, the first \<open>N\<close> transformed rows, \<^verbatim>\<open>has_more\<close> set and the cursor
  at the id of the \<open>N\<close>-th returned item; otherwise every row, \<^verbatim>\<open>has_more\<close> unset and no
  cursor.
\<close>

definition pageOf ::
  "nat \<Rightarrow> 'row list \<Rightarrow> ('row \<Rightarrow> 'item) \<Rightarrow> ('item \<Rightarrow> string) \<Rightarrow> 'item paginated_response \<Rightarrow> bool" where
  "pageOf N rows transform item_id resp =
     (if N < length rows
      then pr_data resp = map transform (take N rows)
           \<and> length (pr_data resp) = N
           \<and> pg_has_more (rm_pagination (pr_meta resp))
           \<and> pg_cursor (rm_pagination (pr_meta resp)) = Some (item_id (pr_data resp ! (N - 1)))
      else pr_data resp = map transform rows
           \<and> \<not> pg_has_more (rm_pagination (pr_meta resp))
           \<and> pg_cursor (rm_pagination (pr_meta resp)) = None)"

text \<open>Rows whose response object passes the response schema.\<close>

definition intentRowValid :: "runtime \<Rightarrow> intent_row \<Rightarrow> bool" where
  "intentRowValid rt item \<longleftrightarrow>
     isUUID rt (i_id item) \<and> isUUID rt (i_org_id item) \<and> isUUID rt (i_relationship_id item)
     \<and> isUUID rt (rs_id (i_relationships item))"

definition relationshipRowValid :: "runtime \<Rightarrow> relationship_row \<Rightarrow> bool" where
  "relationshipRowValid rt item \<longleftrightarrow>
     isUUID rt (r_id item) \<and> isUUID rt (r_org_id item)
     \<and> 0 \<le> r_propensity_score item \<and> r_propensity_score item \<le> 1"

section \<open>Concrete inputs\<close>

definition example_runtime :: runtime where
  "example_runtime =
     \<lparr> now = 1700000000000,
       uuidv4 = (\<lambda>k. ''123e4567-e89b-42d3-a456-426614174000''),
       toLocaleString = (\<lambda>x. ''120,000''),
       numberToString = (\<lambda>x. ''20''),
       toISOString = (\<lambda>t. ''2023-11-14T22:13:20.000Z''),
       spanDuration = 12.5,
       isUUID = (\<lambda>s. length s = 36),
       isDate = (\<lambda>s. length s = 10),
       zodErrorMessage = ''Invalid input'',
       typeErrorMessage = ''Cannot read properties of null'' \<rparr>"

definition example_relationship :: relationship_summary where
  "example_relationship =
     \<lparr> rs_id = ''123e4567-e89b-12d3-a456-426614174001'', rs_name = ''John Doe'',
       rs_email = Some ''john@example.com'', rs_company = Some ''Test Corp'',
       rs_propensity_score = 0.85 \<rparr>"

definition example_intent :: "intent_stage \<Rightarrow> real \<Rightarrow> real \<Rightarrow> int option \<Rightarrow> intent_row" where
  "example_intent stage v p closeDate =
     \<lparr> i_id = ''123e4567-e89b-12d3-a456-426614174000'',
       i_org_id = ''123e4567-e89b-12d3-a456-426614174002'',
       i_relationship_id = ''123e4567-e89b-12d3-a456-426614174001'',
       i_title = ''Enterprise CRM Implementation'',
       i_description = None,
       i_value = v,
       i_currency = ''USD'',
       i_stage = stage,
       i_priority = PriorityHigh,
       i_expected_close_date = closeDate,
       i_probability = p,
       i_metadata = [],
       i_created_at = 1699000000000,
       i_updated_at = 1699900000000,
       i_relationships = example_relationship,
       i_interactions = [] \<rparr>"

definition example_discovery_intent :: intent_row where
  "example_discovery_intent = example_intent Discovery 150000 0.2 None"

definition example_negotiation_intent :: intent_row where
  "example_negotiation_intent = example_intent Negotiation 120000 0.5 None"

definition example_qualification_intent :: intent_row where
  "example_qualification_intent = example_intent Qualification 75000 0.85 (Some 1701728000000)"

definition example_overdue_intent :: intent_row where
  "example_overdue_intent = example_intent Proposal 60000 0.5 (Some 1699000000000)"

definition example_context :: request_context where
  "example_context =
     \<lparr> orgId = ''123e4567-e89b-12d3-a456-426614174002'', userId = Some ''test-user-id'',
       requestId = ''test-request-id'', userAgent = None, ip = None \<rparr>"

definition example_world :: world where
  "example_world = \<lparr> w_org_context = '''', w_measurements = [], w_db_calls = [] \<rparr>"

definition example_intent_list_params :: intent_list_params where
  "example_intent_list_params =
     \<lparr> lp_cursor = None, lp_limit = Some 2, lp_search = None, lp_stage = None,
       lp_priority = None, lp_relationship_id = None, lp_min_value = None, lp_max_value = None,
       lp_min_probability = None, lp_expected_close_before = None,
       lp_expected_close_after = None, lp_sort_by = None, lp_sort_order = None \<rparr>"

definition example_intent_rows :: "intent_row list" where
  "example_intent_rows =
     [example_discovery_intent\<lparr>i_id := ''123e4567-e89b-12d3-a456-426614174010''\<rparr>,
      example_negotiation_intent\<lparr>i_id := ''123e4567-e89b-12d3-a456-426614174011''\<rparr>,
      example_qualification_intent\<lparr>i_id := ''123e4567-e89b-12d3-a456-426614174012''\<rparr>]"

definition example_intents_reply :: "intent_row list select_reply" where
  "example_intents_reply =
     \<lparr> sr_data = Some example_intent_rows, sr_error = None, sr_count = Some 3 \<rparr>"

definition example_relationship_row :: "string \<Rightarrow> relationship_row" where
  "example_relationship_row ident =
     \<lparr> r_id = ident, r_org_id = ''123e4567-e89b-12d3-a456-426614174002'',
       r_type = Individual, r_name = ''John Doe'', r_email = Some ''john@example.com'',
       r_phone = None, r_company = Some ''Test Corp'', r_title = None, r_avatar_url = None,
       r_tags = [''vip''], r_metadata = [], r_propensity_score = 0.85,
       r_last_interaction_at = None, r_created_at = 1699000000000,
       r_updated_at = 1699900000000, r_interactions = [5], r_signals = [] \<rparr>"

definition example_relationship_rows :: "relationship_row list" where
  "example_relationship_rows =
     [example_relationship_row ''123e4567-e89b-12d3-a456-426614174020'',
      example_relationship_row ''123e4567-e89b-12d3-a456-426614174021'',
      example_relationship_row ''123e4567-e89b-12d3-a456-426614174022'']"

definition example_relationships_reply :: "relationship_row list select_reply" where
  "example_relationships_reply =
     \<lparr> sr_data = Some example_relationship_rows, sr_error = None, sr_count = Some 3 \<rparr>"

definition example_relationship_list_params :: relationship_list_params where
  "example_relationship_list_params =
     \<lparr> rlp_cursor = None, rlp_limit = Some 2, rlp_search = None, rlp_tags = None,
       rlp_type = None, rlp_min_propensity = None \<rparr>"

definition example_invalid_get_params :: intent_get_params where
  "example_invalid_get_params =
     \<lparr> gp_id = ''invalid-uuid'', gp_include_relationship = None, gp_include_interactions = None \<rparr>"

definition example_empty_stage_reply :: "pipeline_row list select_reply" where
  "example_empty_stage_reply = \<lparr> sr_data = Some [], sr_error = None, sr_count = None \<rparr>"

definition example_empty_closed_reply :: "intent_stage list select_reply" where
  "example_empty_closed_reply = \<lparr> sr_data = Some [], sr_error = None, sr_count = None \<rparr>"

definition example_overdue_pipeline_row :: pipeline_row where
  "example_overdue_pipeline_row =
     \<lparr> p_stage = Negotiation, p_value = 20000, p_probability = 0.5,
       p_created_at = 1690000000000, p_updated_at = 1690000000000,
       p_expected_close_date = Some 1699000000000 \<rparr>"

definition example_pipeline_rows :: "pipeline_row list" where
  "example_pipeline_rows =
     [\<lparr> p_stage = Qualification, p_value = 50000, p_probability = 0.8,
        p_created_at = 1699000000000, p_updated_at = 1699900000000,
        p_expected_close_date = Some 1701728000000 \<rparr>,
      \<lparr> p_stage = Proposal, p_value = 75000, p_probability = 0.6,
        p_created_at = 1699000000000, p_updated_at = 1699900000000,
        p_expected_close_date = Some 1706048000000 \<rparr>,
      \<lparr> p_stage = Discovery, p_value = 10000, p_probability = 0.5,
        p_created_at = 1699000000000, p_updated_at = 1699900000000,
        p_expected_close_date = None \<rparr>,
      example_overdue_pipeline_row]"

definition example_record_call :: record_call where
  "example_record_call = (example_runtime, ''intent.get'', 12.5, [(''orgId'', JStr ''org'')])"

section \<open>Properties of the rule engine\<close>

subsection \<open>The sort keeps every action and orders the list\<close>

lemma length_filter_insert_by:
  "length (filter P (insert_by cmp x ys)) = length (filter P (x # ys))"
  by (induction ys) auto

lemma length_filter_array_sort:
  "length (filter P (array_sort cmp xs)) = length (filter P xs)"
  unfolding array_sort_def by (induction xs) (simp_all add: length_filter_insert_by)

lemma set_insert_by: "set (insert_by cmp x ys) = insert x (set ys)"
  by (induction ys) auto

lemma set_array_sort: "set (array_sort cmp xs) = set xs"
  unfolding array_sort_def by (induction xs) (simp_all add: set_insert_by)

lemma action_le_iff:
  "action_le a b \<longleftrightarrow>
     nba_priority a < nba_priority b \<or>
     (nba_priority a = nba_priority b \<and> nba_confidence b \<le> nba_confidence a)"
  by (auto simp: action_le_def compareActions_def)

lemma action_le_total: "\<not> action_le a b \<Longrightarrow> action_le b a"
  by (auto simp: action_le_iff)

lemma action_le_trans: "action_le a b \<Longrightarrow> action_le b c \<Longrightarrow> action_le a c"
  by (auto simp: action_le_iff)

lemma sorted_insert_by_actions:
  "sorted_wrt action_le ys \<Longrightarrow> sorted_wrt action_le (insert_by compareActions x ys)"
proof (induction ys)
  case Nil
  then show ?case by simp
next
  case (Cons y ys)
  show ?case
  proof (cases "compareActions x y \<le> 0")
    case True
    then have xy: "action_le x y" by (simp add: action_le_def)
    have "\<forall>z\<in>set ys. action_le x z"
      using Cons.prems xy action_le_trans by auto
    with True xy Cons.prems show ?thesis by simp
  next
    case False
    then have yx: "action_le y x" using action_le_total by (simp add: action_le_def)
    from Cons have "sorted_wrt action_le (insert_by compareActions x ys)" by simp
    with False yx Cons.prems show ?thesis by (auto simp: set_insert_by)
  qed
qed

lemma sorted_array_sort_actions: "sorted_wrt action_le (array_sort compareActions xs)"
  unfolding array_sort_def by (induction xs) (simp_all add: sorted_insert_by_actions)

text \<open>
  C2. For every intent, the list \<^verbatim>\<open>generateNextBestActions\<close> returns is ordered by ascending
  priority and, among equal priorities, by descending confidence: for all positions
  \<open>i < j\<close> of the result, the priority at \<open>i\<close> is at most the priority at \<open>j\<close>, and when the
  two are equal the confidence at \<open>i\<close> is at least the confidence at \<open>j\<close>.
\<close>

theorem generateNextBestActions_sorted:
  assumes "i < j" and "j < length (generateNextBestActions rt intentData)"
  shows "nba_priority (generateNextBestActions rt intentData ! i)
           \<le> nba_priority (generateNextBestActions rt intentData ! j)
         \<and> (nba_priority (generateNextBestActions rt intentData ! i)
              = nba_priority (generateNextBestActions rt intentData ! j)
            \<longrightarrow> nba_confidence (generateNextBestActions rt intentData ! i)
                  \<ge> nba_confidence (generateNextBestActions rt intentData ! j))"
proof -
  have "sorted_wrt action_le (generateNextBestActions rt intentData)"
    by (simp add: generateNextBestActions_def sorted_array_sort_actions)
  with assms have "action_le (generateNextBestActions rt intentData ! i)
                             (generateNextBestActions rt intentData ! j)"
    by (simp add: sorted_wrt_iff_nth_less)
  then show ?thesis by (auto simp: action_le_iff)
qed

subsection \<open>Which actions are generated\<close>

lemmas example_intent_defs = example_intent_def example_discovery_intent_def
  example_negotiation_intent_def example_qualification_intent_def example_overdue_intent_def

lemmas action_defs = discoveryCallAction_def sendProposalAction_def proposalFollowUpAction_def
  negotiationMeetingAction_def executiveMeetingAction_def

lemmas insight_defs = highConversionInsight_def closingSoonInsight_def extendedStageInsight_def

lemma stageActions_no_executive: "filter isExecutiveMeeting (stageActions rt intentData) = []"
  by (cases "i_stage intentData") (simp_all add: stageActions_def isExecutiveMeeting_def action_defs Let_def)

lemma stageActions_meeting_iff:
  "list_ex isMeeting (stageActions rt intentData) \<longleftrightarrow> i_stage intentData = Negotiation"
  by (cases "i_stage intentData") (simp_all add: stageActions_def isMeeting_def action_defs Let_def)

lemma negotiation_actions:
  assumes "i_stage intentData = Negotiation"
  shows "generateNextBestActions rt intentData = [negotiationMeetingAction rt intentData 0]"
  using assms
  by (simp add: generateNextBestActions_def valueActions_def stageActions_def array_sort_def
        negotiationMeetingAction_def)

text \<open>
  C1 (as amended). For an intent in stage negotiation with value 120000 the switch pushes the
  Negotiation Meeting action, which is of type meeting, so the value-based rule finds a
  meeting already present and appends nothing: the result is exactly the one Negotiation
  Meeting action (priority 1, confidence 0.82) and holds no Executive Meeting.
\<close>

theorem negotiation_120000_actions:
  assumes "i_stage intentData = Negotiation" and "i_value intentData = 120000"
  shows "generateNextBestActions rt intentData = [negotiationMeetingAction rt intentData 0]
       \<and> nba_title (negotiationMeetingAction rt intentData 0) = ''Negotiation Meeting''
       \<and> nba_priority (negotiationMeetingAction rt intentData 0) = 1
       \<and> nba_confidence (negotiationMeetingAction rt intentData 0) = 0.82
       \<and> \<not> list_ex isExecutiveMeeting (generateNextBestActions rt intentData)"
  using assms
  by (simp add: negotiation_actions isExecutiveMeeting_def negotiationMeetingAction_def)

text \<open>The amended C1 at a concrete negotiation intent of value 120000.\<close>

theorem negotiation_120000_actions_witness:
  "i_stage example_negotiation_intent = Negotiation
   \<and> i_value example_negotiation_intent = 120000
   \<and> generateNextBestActions example_runtime example_negotiation_intent
       = [negotiationMeetingAction example_runtime example_negotiation_intent 0]"
  using negotiation_120000_actions [of example_negotiation_intent example_runtime]
  by (simp add: example_negotiation_intent_def example_intent_def)

text \<open>
  C1 as stated fails: at a concrete intent with stage negotiation and value 120000 the
  titles of the returned actions are just \<open>Negotiation Meeting\<close>; no Executive Meeting is
  among them.
\<close>

theorem negotiation_120000_counterexample:
  "i_stage example_negotiation_intent = Negotiation
   \<and> i_value example_negotiation_intent = 120000
   \<and> map nba_title (generateNextBestActions example_runtime example_negotiation_intent)
       = [''Negotiation Meeting'']
   \<and> ''Executive Meeting''
       \<notin> set (map nba_title (generateNextBestActions example_runtime example_negotiation_intent))"
  by (simp add: generateNextBestActions_def valueActions_def stageActions_def array_sort_def
        negotiationMeetingAction_def example_negotiation_intent_def example_intent_def)

text \<open>
  C3. For every intent with value above 100000, the returned list holds exactly one
  Executive Meeting action if and only if the stage-keyed rules produced no action of type
  meeting; when they did produce one, the list holds no Executive Meeting at all. Every
  Executive Meeting in the list is of type meeting with priority 1, confidence 0.79,
  impact high and effort high.
\<close>

theorem executive_meeting_iff:
  assumes "i_value intentData > 100000"
  shows "(length (filter isExecutiveMeeting (generateNextBestActions rt intentData)) = 1
            \<longleftrightarrow> \<not> list_ex isMeeting (stageActions rt intentData))
       \<and> (list_ex isMeeting (stageActions rt intentData)
            \<longrightarrow> filter isExecutiveMeeting (generateNextBestActions rt intentData) = [])
       \<and> (\<forall>a \<in> set (generateNextBestActions rt intentData).
             isExecutiveMeeting a \<longrightarrow>
               nba_type a = ActMeeting \<and> nba_priority a = 1 \<and> nba_confidence a = 0.79
               \<and> nba_estimated_impact a = High \<and> nba_estimated_effort a = High)"
proof -
  let ?stage = "stageActions rt intentData"
  let ?res = "generateNextBestActions rt intentData"
  have count: "length (filter isExecutiveMeeting ?res)
                 = length (filter isExecutiveMeeting (valueActions rt intentData ?stage))"
    by (simp add: generateNextBestActions_def length_filter_array_sort)
  have val: "filter isExecutiveMeeting (valueActions rt intentData ?stage)
               = (if list_ex isMeeting ?stage then [] else [executiveMeetingAction rt intentData (length ?stage)])"
    using assms
    by (simp add: valueActions_def stageActions_no_executive isMeeting_def [abs_def]
          isExecutiveMeeting_def executiveMeetingAction_def)
  have one: "length (filter isExecutiveMeeting ?res) = 1 \<longleftrightarrow> \<not> list_ex isMeeting ?stage"
    using count val by simp
  have none: "list_ex isMeeting ?stage \<longrightarrow> filter isExecutiveMeeting ?res = []"
  proof
    assume "list_ex isMeeting ?stage"
    with count val have "length (filter isExecutiveMeeting ?res) = 0" by simp
    then show "filter isExecutiveMeeting ?res = []" by simp
  qed
  have fields: "\<forall>a \<in> set ?res. isExecutiveMeeting a \<longrightarrow>
               nba_type a = ActMeeting \<and> nba_priority a = 1 \<and> nba_confidence a = 0.79
               \<and> nba_estimated_impact a = High \<and> nba_estimated_effort a = High"
  proof (intro ballI impI)
    fix a assume a: "a \<in> set ?res" and e: "isExecutiveMeeting a"
    from a have "a \<in> set (valueActions rt intentData ?stage)"
      by (simp add: generateNextBestActions_def set_array_sort)
    with e have "a \<in> set (filter isExecutiveMeeting (valueActions rt intentData ?stage))" by simp
    with val have "a = executiveMeetingAction rt intentData (length ?stage)"
      by (simp split: if_splits)
    then show "nba_type a = ActMeeting \<and> nba_priority a = 1 \<and> nba_confidence a = 0.79
               \<and> nba_estimated_impact a = High \<and> nba_estimated_effort a = High"
      by (simp add: executiveMeetingAction_def)
  qed
  from one none fields show ?thesis by blast
qed

lemma example_discovery_actions: "generateNextBestActions example_runtime example_discovery_intent
   = [executiveMeetingAction example_runtime example_discovery_intent 1,
      discoveryCallAction example_runtime example_discovery_intent 0]"
  by (simp add: generateNextBestActions_def valueActions_def stageActions_def array_sort_def
        compareActions_def action_defs example_intent_def example_discovery_intent_def)

text \<open>C3 at a discovery intent of value 150000, where the stage rule yields a call.\<close>

theorem executive_meeting_iff_witness:
  "i_value example_discovery_intent > 100000
   \<and> \<not> list_ex isMeeting (stageActions example_runtime example_discovery_intent)
   \<and> length (filter isExecutiveMeeting
         (generateNextBestActions example_runtime example_discovery_intent)) = 1"
proof -
  have v: "i_value example_discovery_intent > 100000"
    by (simp add: example_discovery_intent_def example_intent_def)
  have m: "\<not> list_ex isMeeting (stageActions example_runtime example_discovery_intent)"
    by (simp add: stageActions_meeting_iff example_discovery_intent_def example_intent_def)
  from executive_meeting_iff [OF v, of example_runtime] m v show ?thesis by simp
qed

text \<open>C2 at the same intent, whose two actions the sort has to swap.\<close>

theorem generateNextBestActions_sorted_witness:
  "(0::nat) < 1
   \<and> 1 < length (generateNextBestActions example_runtime example_discovery_intent)
   \<and> nba_priority (generateNextBestActions example_runtime example_discovery_intent ! 0)
       \<le> nba_priority (generateNextBestActions example_runtime example_discovery_intent ! 1)"
  using generateNextBestActions_sorted [of 0 1 example_runtime example_discovery_intent]
  by (simp add: example_discovery_actions)

subsection \<open>Which insights are generated\<close>

text \<open>
  C4. For every intent in stage qualification with probability \<open>p\<close> between 0 and 1,
  \<^verbatim>\<open>generateAIInsights\<close> emits the high-conversion-probability insight if and only if
  \<open>p > 0.8\<close>; the insight is behavioral, with confidence 0.92 and impact high.
\<close>

theorem high_conversion_insight_iff:
  assumes "i_stage intentData = Qualification"
    and "0 \<le> i_probability intentData" and "i_probability intentData \<le> 1"
  shows "(list_ex isHighConversion (generateAIInsights rt intentData)
            \<longleftrightarrow> i_probability intentData > 0.8)
       \<and> (\<forall>x \<in> set (generateAIInsights rt intentData).
             isHighConversion x \<longrightarrow>
               ins_type x = Behavioral \<and> ins_confidence x = 0.92 \<and> ins_impact x = High)"
  using assms
  by (auto simp: generateAIInsights_def Let_def isHighConversion_def insight_defs list_ex_iff
        split: option.splits if_splits)

text \<open>C4 at a qualification intent with probability 0.85.\<close>

theorem high_conversion_insight_iff_witness:
  "i_stage example_qualification_intent = Qualification
   \<and> 0 \<le> i_probability example_qualification_intent
   \<and> i_probability example_qualification_intent \<le> 1
   \<and> i_probability example_qualification_intent > 0.8
   \<and> list_ex isHighConversion (generateAIInsights example_runtime example_qualification_intent)"
  using high_conversion_insight_iff [of example_qualification_intent example_runtime]
  by (simp add: example_qualification_intent_def example_intent_def)

text \<open>
  C10. For every intent with value above 50000 whose expected-close date is at or before
  the current time, \<^verbatim>\<open>generateAIInsights\<close> still emits the High-Value Deal Closing Soon
  predictive insight, and the \<^verbatim>\<open>days_to_close\<close> it carries is zero or negative: the rule
  checks only that the number of days is below 30.
\<close>

theorem closing_soon_without_lower_bound:
  assumes "i_value intentData > 50000"
    and "i_expected_close_date intentData = Some closeDate"
    and "closeDate \<le> now rt"
  shows "\<exists>x \<in> set (generateAIInsights rt intentData). \<exists>d.
           isClosingSoon x \<and> ins_type x = Predictive \<and> ins_confidence x = 0.85
           \<and> d = \<lceil>real_of_int (closeDate - now rt) / (1000 * 60 * 60 * 24)\<rceil>
           \<and> map_of (ins_metadata x) ''days_to_close'' = Some (JNum (real_of_int d))
           \<and> d \<le> 0"
proof -
  define d where "d = \<lceil>real_of_int (closeDate - now rt) / (1000 * 60 * 60 * 24)\<rceil>"
  have "real_of_int (closeDate - now rt) / (1000 * 60 * 60 * 24) \<le> 0"
    using assms(3) by (simp add: divide_le_0_iff)
  then have d0: "d \<le> 0" unfolding d_def by (simp add: ceiling_le_iff)
  then have d30: "d < 30" by simp
  have "\<exists>k. closingSoonInsight rt intentData d k \<in> set (generateAIInsights rt intentData)"
    using assms(1,2) d30 unfolding d_def
    by (auto simp: generateAIInsights_def Let_def)
  then obtain k where k: "closingSoonInsight rt intentData d k \<in> set (generateAIInsights rt intentData)" ..
  show ?thesis
    using d0 d_def
    by (intro bexI [OF _ k] exI [of _ d]) (simp add: closingSoonInsight_def isClosingSoon_def)
qed

text \<open>C10 at an intent of value 60000 whose close date lies eleven days in the past.\<close>

theorem closing_soon_without_lower_bound_witness:
  "i_value example_overdue_intent > 50000
   \<and> i_expected_close_date example_overdue_intent = Some 1699000000000
   \<and> 1699000000000 \<le> now example_runtime
   \<and> list_ex isClosingSoon (generateAIInsights example_runtime example_overdue_intent)"
  using closing_soon_without_lower_bound [of example_overdue_intent 1699000000000 example_runtime]
  by (auto simp: example_overdue_intent_def example_intent_def example_runtime_def list_ex_iff)

section \<open>Properties of the measurements buffer\<close>

lemma record_all_append:
  "record_all (calls @ rest) ms = record_all rest (record_all calls ms)"
  by (induction calls ms rule: record_all.induct) simp_all

lemma record_one:
  "PerformanceMonitor_record rt operation duration tags ms
     = slice_last 1000 (ms @ [sample_of (rt, operation, duration, tags)])"
  by (simp add: PerformanceMonitor_record_def slice_last_def Let_def)

lemma slice_last_snoc:
  "slice_last n (slice_last n xs @ [x]) = slice_last n (xs @ [x])"
  by (cases "length xs \<le> n") (auto simp: slice_last_def Suc_diff_le)

lemma record_all_retains:
  "record_all calls [] = slice_last 1000 (map sample_of calls)"
proof (induction calls rule: rev_induct)
  case Nil
  show ?case by (simp add: slice_last_def)
next
  case (snoc c calls)
  obtain rt operation duration tags where c: "c = (rt, operation, duration, tags)"
    by (cases c) auto
  show ?case
    by (simp add: record_all_append snoc.IH c record_one slice_last_snoc del: sample_of.simps)
qed

text \<open>
  C9. Starting from the empty buffer, after every sequence of calls to
  \<^verbatim>\<open>PerformanceMonitor.record\<close> the buffer holds at most 1000 entries, namely
  \<open>min (number of calls) 1000\<close> of them, and they are exactly the samples of the most recent
  calls, in the order recorded.
\<close>

theorem measurements_buffer_retention:
  "length (record_all calls []) \<le> 1000
   \<and> length (record_all calls []) = min (length calls) 1000
   \<and> record_all calls [] = drop (length calls - 1000) (map sample_of calls)"
proof -
  have "length calls - (length calls - 1000) = min (length calls) 1000"
    by arith
  then show ?thesis
    by (simp add: record_all_retains slice_last_def)
qed

text \<open>
  C9 after 1001 equal calls: the buffer holds 1000 samples, the first one dropped.
\<close>

theorem measurements_buffer_retention_witness:
  "length (record_all (replicate 1001 example_record_call) []) = 1000
   \<and> record_all (replicate 1001 example_record_call) []
       = replicate 1000 (sample_of example_record_call)"
  using measurements_buffer_retention [of "replicate 1001 example_record_call"]
  by simp

section \<open>Properties of the forecast\<close>

lemma foldl_add_sum_list:
  "foldl (\<lambda>sum i. sum + f i) (a::real) xs = a + sum_list (map f xs)"
  by (induction xs arbitrary: a) simp_all

lemma sum_list_filter_if:
  "sum_list (map f (filter P xs)) = sum_list (map (\<lambda>x. if P x then f x else (0::real)) xs)"
  by (induction xs) simp_all

lemma closesBy_dueByHorizon:
  "closesBy (now rt + days * 86400000) i = dueByHorizon rt days i"
  by (simp add: closesBy_def dueByHorizon_def)

lemma forecast_for_horizon:
  "foldl (\<lambda>sum i. sum + p_value i * p_probability i) 0
     (filter (closesBy (now rt + days * 86400000)) intents)
     = forecastOfDue rt days intents"
  by (simp add: foldl_add_sum_list sum_list_filter_if closesBy_dueByHorizon
        dueContribution_def [abs_def] forecastOfDue_def)

text \<open>
  C8 (as amended). For each of the horizons of 30, 60 and 90 days, the figure
  \<^verbatim>\<open>generateForecasting\<close> returns is the sum of value times probability over exactly the
  input intents whose expected-close date is at or before that many days from now. There
  is no lower bound, so an intent whose expected-close date is already past counts towards
  every horizon; an intent without an expected-close date contributes nothing. The three
  figures come with the fixed confidence 0.82.
\<close>

theorem forecasting_sums:
  "fc_next_30_days (generateForecasting rt intents) = forecastOfDue rt 30 intents
   \<and> fc_next_60_days (generateForecasting rt intents) = forecastOfDue rt 60 intents
   \<and> fc_next_90_days (generateForecasting rt intents) = forecastOfDue rt 90 intents
   \<and> fc_confidence (generateForecasting rt intents) = 0.82"
  using forecast_for_horizon [of rt 30 intents] forecast_for_horizon [of rt 60 intents]
    forecast_for_horizon [of rt 90 intents]
  by (simp add: generateForecasting_def Let_def)

text \<open>
  The amended C8 at four rows closing in 20 days, in 70 days, never, and eleven days ago:
  the first and the last count towards every horizon, the second only towards 90 days.
\<close>

theorem forecasting_sums_witness:
  "fc_next_30_days (generateForecasting example_runtime example_pipeline_rows) = 50000
   \<and> fc_next_60_days (generateForecasting example_runtime example_pipeline_rows) = 50000
   \<and> fc_next_90_days (generateForecasting example_runtime example_pipeline_rows) = 95000
   \<and> fc_confidence (generateForecasting example_runtime example_pipeline_rows) = 0.82"
  using forecasting_sums [of example_runtime example_pipeline_rows]
  by (simp add: forecastOfDue_def dueContribution_def dueByHorizon_def example_pipeline_rows_def
        example_overdue_pipeline_row_def example_runtime_def)

text \<open>
  C8 as stated fails: for the single row whose expected-close date lies eleven days before
  now, no date falls within the next 30, 60 or 90 days and the forecast as worded is 0, yet
  the code counts the row and returns 10000 for each horizon.
\<close>

theorem forecasting_past_date_counterexample:
  "p_expected_close_date example_overdue_pipeline_row = Some 1699000000000
   \<and> now example_runtime = 1700000000000
   \<and> fc_next_30_days (generateForecasting example_runtime [example_overdue_pipeline_row]) = 10000
   \<and> forecastAsWorded example_runtime 30 [example_overdue_pipeline_row] = 0
   \<and> fc_next_30_days (generateForecasting example_runtime [example_overdue_pipeline_row])
       \<noteq> forecastAsWorded example_runtime 30 [example_overdue_pipeline_row]
   \<and> fc_next_60_days (generateForecasting example_runtime [example_overdue_pipeline_row])
       \<noteq> forecastAsWorded example_runtime 60 [example_overdue_pipeline_row]
   \<and> fc_next_90_days (generateForecasting example_runtime [example_overdue_pipeline_row])
       \<noteq> forecastAsWorded example_runtime 90 [example_overdue_pipeline_row]"
  by (simp add: generateForecasting_def Let_def closesBy_def forecastAsWorded_def
        horizonContribution_def withinHorizon_def example_overdue_pipeline_row_def
        example_runtime_def)

text \<open>
  On inputs without an overdue expected-close date the code's figure and the forecast as
  worded are the same.
\<close>

lemma forecast_as_worded_without_overdue:
  assumes "\<forall>i \<in> set intents. notOverdue rt i"
  shows "forecastOfDue rt days intents = forecastAsWorded rt days intents"
proof -
  have "map (dueContribution rt days) intents = map (horizonContribution rt days) intents"
    using assms
    by (intro map_cong refl)
       (auto simp: dueContribution_def horizonContribution_def dueByHorizon_def withinHorizon_def
             notOverdue_def split: option.splits)
  then show ?thesis by (simp only: forecastOfDue_def forecastAsWorded_def)
qed

section \<open>Properties of the service operations\<close>

subsection \<open>The tenant context is cleared on every exit\<close>

lemma catchFinally_calls:
  "w_db_calls (snd (catchFinally ctx rt operation clear_reply outcome))
     = w_db_calls (snd outcome) @ [ClearOrgContextRpc]"
  by (cases outcome)
     (auto simp: catchFinally_def clearOrgContext_def catchBlock_def Let_def
           split: sum.splits option.splits)

lemma catchFinally_result:
  "fst (catchFinally ctx rt operation clear_reply outcome) = fst outcome"
  by (cases outcome) (auto simp: catchFinally_def split: sum.splits)

lemma catchFinally_context:
  "clear_reply = None \<Longrightarrow>
     w_org_context (snd (catchFinally ctx rt operation clear_reply outcome)) = ''''"
  by (cases outcome)
     (auto simp: catchFinally_def clearOrgContext_def catchBlock_def Let_def split: sum.splits)

lemma clearedOnExit_catchFinally:
  assumes "sendsNoClear w outcome"
  shows "clearedOnExit w (catchFinally ctx rt operation clear_reply outcome)"
proof -
  define sent where "sent = drop (length (w_db_calls w)) (w_db_calls (snd outcome))"
  from assms have a: "w_db_calls (snd outcome) = w_db_calls w @ sent"
    and b: "ClearOrgContextRpc \<notin> set sent"
    by (simp_all add: sendsNoClear_def Let_def sent_def)
  have "w_db_calls (snd (catchFinally ctx rt operation clear_reply outcome))
          = w_db_calls w @ (sent @ [ClearOrgContextRpc])"
    by (simp add: catchFinally_calls a)
  then show ?thesis using b
    by (simp add: clearedOnExit_def Let_def)
qed

lemma getIntent_try_no_clear: "sendsNoClear w (getIntent_try ctx rt set_reply reply params w)"
  by (simp add: sendsNoClear_def getIntent_try_def setOrgContext_def Let_def
        split: sum.splits option.splits)

lemma listIntents_try_no_clear: "sendsNoClear w (listIntents_try ctx rt set_reply reply params w)"
  by (simp add: sendsNoClear_def listIntents_try_def setOrgContext_def Let_def
        split: sum.splits option.splits)

lemma getRelationship_try_no_clear:
  "sendsNoClear w (getRelationship_try ctx rt set_reply reply params w)"
  by (simp add: sendsNoClear_def getRelationship_try_def setOrgContext_def Let_def
        split: sum.splits option.splits)

lemma listRelationships_try_no_clear:
  "sendsNoClear w (listRelationships_try ctx rt set_reply reply params w)"
  by (simp add: sendsNoClear_def listRelationships_try_def setOrgContext_def Let_def
        split: sum.splits option.splits)

lemma getPipelineAnalytics_try_no_clear:
  "sendsNoClear w (getPipelineAnalytics_try ctx rt set_reply stage_reply closed_reply w)"
  by (simp add: sendsNoClear_def getPipelineAnalytics_try_def setOrgContext_def Let_def
        split: sum.splits option.splits)

text \<open>
  C7. For each of the five operations and whatever the parameters and the database's
  answers are, hence on every exit path (a response, a validation failure, not-found, a
  failed fetch), the last request the operation sends before its outcome reaches the
  caller is the \<^verbatim>\<open>clearOrgContext\<close> call, and it is sent once.
\<close>

theorem tenant_context_cleared_on_every_exit:
  "clearedOnExit w (getIntent ctx rt set_reply intent_reply clear_reply get_params w)
   \<and> clearedOnExit w (listIntents ctx rt set_reply intents_reply clear_reply list_params w)
   \<and> clearedOnExit w (getPipelineAnalytics ctx rt set_reply stage_reply closed_reply clear_reply w)
   \<and> clearedOnExit w (getRelationship ctx rt set_reply relationship_reply clear_reply rget_params w)
   \<and> clearedOnExit w (listRelationships ctx rt set_reply relationships_reply clear_reply rlist_params w)"
  by (simp add: getIntent_def listIntents_def getPipelineAnalytics_def getRelationship_def
        listRelationships_def clearedOnExit_catchFinally getIntent_try_no_clear
        listIntents_try_no_clear getRelationship_try_no_clear listRelationships_try_no_clear
        getPipelineAnalytics_try_no_clear)

text \<open>
  C7 on the validation-failure path of \<^verbatim>\<open>getIntent\<close>: the id is no UUID, nothing but the
  clear call is sent, and the caller gets the \<^verbatim>\<open>ZodError\<close>.
\<close>

theorem tenant_context_cleared_witness:
  "fst (getIntent example_context example_runtime None
          \<lparr> sr_data = None, sr_error = None, sr_count = None \<rparr> None
          example_invalid_get_params example_world) = Inl ZodError
   \<and> w_db_calls (snd (getIntent example_context example_runtime None
          \<lparr> sr_data = None, sr_error = None, sr_count = None \<rparr> None
          example_invalid_get_params example_world)) = [ClearOrgContextRpc]
   \<and> clearedOnExit example_world
        (getIntent example_context example_runtime None
          \<lparr> sr_data = None, sr_error = None, sr_count = None \<rparr> None
          example_invalid_get_params example_world)"
  using tenant_context_cleared_on_every_exit [of example_world example_context example_runtime
      None "\<lparr> sr_data = None, sr_error = None, sr_count = None \<rparr>" None example_invalid_get_params]
  by (simp add: getIntent_def getIntent_try_def catchFinally_def catchBlock_def
        clearOrgContext_def IntentGetParamsSchema_parse_def example_invalid_get_params_def
        example_runtime_def example_world_def Let_def)

subsection \<open>Pagination\<close>

lemma map_result_Inr:
  assumes "map_result f xs = Inr ys" and "\<And>x y. f x = Inr y \<Longrightarrow> y = g x"
  shows "ys = map g xs"
  using assms(1)
proof (induction xs arbitrary: ys)
  case Nil
  then show ?case by simp
next
  case (Cons x xs)
  then show ?case
    by (auto split: sum.splits dest: assms(2))
qed

lemma hasMoreRows_nat: "hasMoreRows (real N) rows \<longleftrightarrow> N < length rows"
  by (simp add: hasMoreRows_def)

lemma sliceRows_nat: "sliceRows (real N) rows = take N rows"
  by (simp add: sliceRows_def)

lemma nextCursorOf_page:
  assumes "0 < N"
  shows "nextCursorOf row_id (N < length rows) (take N rows)
           = (if N < length rows then Some (row_id (rows ! (N - 1))) else None)"
proof (cases "N < length rows")
  case True
  with assms have ne: "take N rows \<noteq> []" by auto
  from True have "length (take N rows) = N" by simp
  with last_conv_nth [OF ne] have "last (take N rows) = take N rows ! (N - 1)"
    by simp
  with assms have l: "last (take N rows) = rows ! (N - 1)"
    by simp
  from ne obtain x xs where c: "take N rows = x # xs"
    by (cases "take N rows") auto
  have "nextCursorOf row_id True (take N rows) = Some (row_id (last (take N rows)))"
    unfolding nextCursorOf_def c by simp
  with True l show ?thesis by simp
next
  case False
  then show ?thesis by (simp add: nextCursorOf_def)
qed

lemma limit_positive:
  assumes "optionally (\<lambda>l. 1 \<le> l \<and> l \<le> (100::real)) requested" and "withDefault 20 requested = real N"
  shows "0 < N"
proof (cases requested)
  case None
  with assms(2) have "real N = 20" by (simp add: withDefault_def)
  then show ?thesis by (cases N) simp_all
next
  case (Some l)
  with assms have "1 \<le> real N" by (simp add: withDefault_def optionally_def)
  then show ?thesis by (cases N) simp_all
qed

lemma intent_limit:
  assumes vp: "IntentListParamsSchema_parse rt params = Inr vp"
    and lim: "withDefault 20 (lp_limit params) = real N"
  shows "vlp_limit vp = real N" and "0 < N"
proof -
  from vp have ok: "optionally (\<lambda>l. 1 \<le> l \<and> l \<le> 100) (lp_limit params)"
    and v: "vlp_limit vp = withDefault 20 (lp_limit params)"
    by (auto simp: IntentListParamsSchema_parse_def split: if_splits)
  from v lim show "vlp_limit vp = real N" by simp
  from ok lim show "0 < N" by (rule limit_positive)
qed

lemma relationship_limit:
  assumes vp: "RelationshipListParamsSchema_parse rt params = Inr vp"
    and lim: "withDefault 20 (rlp_limit params) = real N"
  shows "vrlp_limit vp = real N" and "0 < N"
proof -
  from vp have ok: "optionally (\<lambda>l. 1 \<le> l \<and> l \<le> 100) (rlp_limit params)"
    and v: "vrlp_limit vp = withDefault 20 (rlp_limit params)"
    by (auto simp: RelationshipListParamsSchema_parse_def split: if_splits)
  from v lim show "vrlp_limit vp = real N" by simp
  from ok lim show "0 < N" by (rule limit_positive)
qed

lemma listIntents_page:
  assumes ok: "fst (listIntents ctx rt set_reply reply clear_reply params w) = Inr resp"
    and lim: "withDefault 20 (lp_limit params) = real N"
    and rows: "sr_data reply = Some rows"
  shows "pageOf N rows (\<lambda>item. intentResponseOf rt item True None) ir_id resp"
proof -
  from ok have tr: "fst (listIntents_try ctx rt set_reply reply params w) = Inr resp"
    by (cases "listIntents_try ctx rt set_reply reply params w")
       (auto simp: listIntents_def catchFinally_def split: sum.splits)
  from tr obtain vp where vp: "IntentListParamsSchema_parse rt params = Inr vp"
    by (auto simp: listIntents_try_def split: sum.splits)
  from intent_limit [OF vp lim] have vlim: "vlp_limit vp = real N" and pos: "0 < N"
    by simp_all
  let ?f = "\<lambda>item. IntentResponseSchema_parse rt (intentResponseOf rt item True None)"
  from tr vp rows vlim obtain items where
    items: "map_result ?f (take N rows) = Inr items"
    and resp: "pr_data resp = items"
      "pg_has_more (rm_pagination (pr_meta resp)) = (N < length rows)"
      "pg_cursor (rm_pagination (pr_meta resp)) = nextCursorOf i_id (N < length rows) (take N rows)"
    by (auto simp: listIntents_try_def setOrgContext_def Let_def hasMoreRows_nat sliceRows_nat
          split: sum.splits option.splits)
  have data: "items = map (\<lambda>item. intentResponseOf rt item True None) (take N rows)"
    by (rule map_result_Inr [OF items])
       (auto simp: IntentResponseSchema_parse_def split: if_splits)
  have ids: "N < length rows \<Longrightarrow> ir_id (items ! (N - 1)) = i_id (rows ! (N - 1))"
    using pos by (simp add: data intentResponseOf_def Let_def)
  show ?thesis
    using resp data ids pos
    by (auto simp: pageOf_def nextCursorOf_page)
qed

lemma listRelationships_page:
  assumes ok: "fst (listRelationships ctx rt set_reply reply clear_reply params w) = Inr resp"
    and lim: "withDefault 20 (rlp_limit params) = real N"
    and rows: "sr_data reply = Some rows"
  shows "pageOf N rows relationshipResponseOf rr_id resp"
proof -
  from ok have tr: "fst (listRelationships_try ctx rt set_reply reply params w) = Inr resp"
    by (cases "listRelationships_try ctx rt set_reply reply params w")
       (auto simp: listRelationships_def catchFinally_def split: sum.splits)
  from tr obtain vp where vp: "RelationshipListParamsSchema_parse rt params = Inr vp"
    by (auto simp: listRelationships_try_def split: sum.splits)
  from relationship_limit [OF vp lim] have vlim: "vrlp_limit vp = real N" and pos: "0 < N"
    by simp_all
  let ?f = "\<lambda>item. RelationshipResponseSchema_parse rt (relationshipResponseOf item)"
  from tr vp rows vlim obtain items where
    items: "map_result ?f (take N rows) = Inr items"
    and resp: "pr_data resp = items"
      "pg_has_more (rm_pagination (pr_meta resp)) = (N < length rows)"
      "pg_cursor (rm_pagination (pr_meta resp)) = nextCursorOf r_id (N < length rows) (take N rows)"
    by (auto simp: listRelationships_try_def setOrgContext_def Let_def hasMoreRows_nat sliceRows_nat
          split: sum.splits option.splits)
  have data: "items = map relationshipResponseOf (take N rows)"
    by (rule map_result_Inr [OF items])
       (auto simp: RelationshipResponseSchema_parse_def split: if_splits)
  have ids: "N < length rows \<Longrightarrow> rr_id (items ! (N - 1)) = r_id (rows ! (N - 1))"
    using pos by (simp add: data relationshipResponseOf_def)
  show ?thesis
    using resp data ids pos
    by (auto simp: pageOf_def nextCursorOf_page)
qed

text \<open>
  C5. Whenever \<^verbatim>\<open>listIntents\<close> or \<^verbatim>\<open>listRelationships\<close> returns a response for a limit
  of \<open>N\<close> (given, or the default 20) and the fetch yielded \<open>rows\<close>: if there are more than
  \<open>N\<close> rows, the response holds exactly the first \<open>N\<close> of them, \<^verbatim>\<open>has_more\<close> is true and the
  cursor is the id of the \<open>N\<close>-th returned item; if there are at most \<open>N\<close>, it holds all of
  them, \<^verbatim>\<open>has_more\<close> is false and the cursor is null.
\<close>

theorem list_pagination:
  "(fst (listIntents ctx rt set_reply intents_reply clear_reply list_params w) = Inr resp
      \<and> withDefault 20 (lp_limit list_params) = real N \<and> sr_data intents_reply = Some rows
    \<longrightarrow> pageOf N rows (\<lambda>item. intentResponseOf rt item True None) ir_id resp)
   \<and> (fst (listRelationships ctx rt set_reply relationships_reply clear_reply rlist_params w) = Inr rresp
        \<and> withDefault 20 (rlp_limit rlist_params) = real M \<and> sr_data relationships_reply = Some rrows
      \<longrightarrow> pageOf M rrows relationshipResponseOf rr_id rresp)"
  using listIntents_page listRelationships_page by blast

text \<open>
  The list operations do return a response when the parameters pass their schema, the
  tenant context could be set, the fetch succeeded and every row passes the response
  schema.
\<close>

lemma map_result_returns:
  "\<forall>x \<in> set xs. \<exists>y. f x = Inr y \<Longrightarrow> \<exists>ys. map_result f xs = Inr ys"
  by (induction xs) auto

lemma set_sliceRows: "set (sliceRows rowLimit rows) \<subseteq> set rows"
  by (simp add: sliceRows_def set_take_subset)

lemma listIntents_returns:
  assumes "IntentListParamsSchema_parse rt params = Inr vp"
    and "set_reply = None" and "sr_error reply = None" and "sr_data reply = Some rows"
    and "\<forall>item \<in> set rows. intentRowValid rt item"
  shows "\<exists>resp. fst (listIntents ctx rt set_reply reply clear_reply params w) = Inr resp"
proof -
  let ?f = "\<lambda>item. IntentResponseSchema_parse rt (intentResponseOf rt item True None)"
  have "\<forall>item \<in> set (sliceRows (vlp_limit vp) rows). \<exists>y. ?f item = Inr y"
    using assms(5) set_sliceRows [of "vlp_limit vp" rows]
    by (auto simp: IntentResponseSchema_parse_def intentResponseOf_def Let_def intentRowValid_def
          optionally_def)
  then have "\<exists>ys. map_result ?f (sliceRows (vlp_limit vp) rows) = Inr ys"
    by (rule map_result_returns)
  then obtain ys where ys: "map_result ?f (sliceRows (vlp_limit vp) rows) = Inr ys" ..
  have "\<not> isl (fst (listIntents_try ctx rt set_reply reply params w))"
    unfolding listIntents_try_def assms(1) assms(2) setOrgContext_def Let_def
    by (simp add: assms(3,4) ys)
  then have "\<not> isl (fst (listIntents ctx rt set_reply reply clear_reply params w))"
    by (simp add: listIntents_def catchFinally_result)
  then show ?thesis
    by (cases "fst (listIntents ctx rt set_reply reply clear_reply params w)") simp_all
qed

lemma listRelationships_returns:
  assumes "RelationshipListParamsSchema_parse rt params = Inr vp"
    and "set_reply = None" and "sr_error reply = None" and "sr_data reply = Some rows"
    and "\<forall>item \<in> set rows. relationshipRowValid rt item"
  shows "\<exists>resp. fst (listRelationships ctx rt set_reply reply clear_reply params w) = Inr resp"
proof -
  let ?f = "\<lambda>item. RelationshipResponseSchema_parse rt (relationshipResponseOf item)"
  have "\<forall>item \<in> set (sliceRows (vrlp_limit vp) rows). \<exists>y. ?f item = Inr y"
    using assms(5) set_sliceRows [of "vrlp_limit vp" rows]
    by (auto simp: RelationshipResponseSchema_parse_def relationshipResponseOf_def
          relationshipRowValid_def)
  then have "\<exists>ys. map_result ?f (sliceRows (vrlp_limit vp) rows) = Inr ys"
    by (rule map_result_returns)
  then obtain ys where ys: "map_result ?f (sliceRows (vrlp_limit vp) rows) = Inr ys" ..
  have "\<not> isl (fst (listRelationships_try ctx rt set_reply reply params w))"
    unfolding listRelationships_try_def assms(1) assms(2) setOrgContext_def Let_def
    by (simp add: assms(3,4) ys)
  then have "\<not> isl (fst (listRelationships ctx rt set_reply reply clear_reply params w))"
    by (simp add: listRelationships_def catchFinally_result)
  then show ?thesis
    by (cases "fst (listRelationships ctx rt set_reply reply clear_reply params w)") simp_all
qed

lemma example_listIntents_returns:
  "\<exists>resp. fst (listIntents example_context example_runtime None example_intents_reply None
               example_intent_list_params example_world) = Inr resp"
proof (rule listIntents_returns)
  show "IntentListParamsSchema_parse example_runtime example_intent_list_params
          = Inr \<lparr> vlp_cursor = None, vlp_limit = 2, vlp_search = None, vlp_stage = None,
                  vlp_priority = None, vlp_relationship_id = None, vlp_min_value = None,
                  vlp_max_value = None, vlp_min_probability = None,
                  vlp_expected_close_before = None, vlp_expected_close_after = None,
                  vlp_sort_by = SortUpdatedAt, vlp_sort_order = Desc \<rparr>"
    by (simp add: IntentListParamsSchema_parse_def example_intent_list_params_def optionally_def
          withDefault_def)
  show "sr_error example_intents_reply = None"
    and "sr_data example_intents_reply = Some example_intent_rows"
    by (simp_all add: example_intents_reply_def)
  show "\<forall>item \<in> set example_intent_rows. intentRowValid example_runtime item"
    by (simp add: example_intent_rows_def intentRowValid_def example_intent_defs
          example_relationship_def example_runtime_def)
qed simp

lemma example_listRelationships_returns:
  "\<exists>resp. fst (listRelationships example_context example_runtime None example_relationships_reply
               None example_relationship_list_params example_world) = Inr resp"
proof (rule listRelationships_returns)
  show "RelationshipListParamsSchema_parse example_runtime example_relationship_list_params
          = Inr \<lparr> vrlp_cursor = None, vrlp_limit = 2, vrlp_search = None, vrlp_tags = None,
                  vrlp_type = None, vrlp_min_propensity = None \<rparr>"
    by (simp add: RelationshipListParamsSchema_parse_def example_relationship_list_params_def
          optionally_def withDefault_def)
  show "sr_error example_relationships_reply = None"
    and "sr_data example_relationships_reply = Some example_relationship_rows"
    by (simp_all add: example_relationships_reply_def)
  show "\<forall>item \<in> set example_relationship_rows. relationshipRowValid example_runtime item"
    by (simp add: example_relationship_rows_def relationshipRowValid_def
          example_relationship_row_def example_runtime_def)
qed simp

text \<open>
  C5 at a limit of 2 over three fetched rows, for both operations.
\<close>

theorem list_pagination_witness:
  "\<exists>resp rresp.
     fst (listIntents example_context example_runtime None example_intents_reply None
            example_intent_list_params example_world) = Inr resp
     \<and> withDefault 20 (lp_limit example_intent_list_params) = real 2
     \<and> sr_data example_intents_reply = Some example_intent_rows
     \<and> length example_intent_rows = 3
     \<and> map ir_id (pr_data resp)
         = [''123e4567-e89b-12d3-a456-426614174010'', ''123e4567-e89b-12d3-a456-426614174011'']
     \<and> pg_has_more (rm_pagination (pr_meta resp))
     \<and> pg_cursor (rm_pagination (pr_meta resp)) = Some ''123e4567-e89b-12d3-a456-426614174011''
     \<and> fst (listRelationships example_context example_runtime None example_relationships_reply
              None example_relationship_list_params example_world) = Inr rresp
     \<and> withDefault 20 (rlp_limit example_relationship_list_params) = real 2
     \<and> sr_data example_relationships_reply = Some example_relationship_rows
     \<and> map rr_id (pr_data rresp)
         = [''123e4567-e89b-12d3-a456-426614174020'', ''123e4567-e89b-12d3-a456-426614174021'']
     \<and> pg_has_more (rm_pagination (pr_meta rresp))
     \<and> pg_cursor (rm_pagination (pr_meta rresp)) = Some ''123e4567-e89b-12d3-a456-426614174021''"
proof -
  obtain resp where r: "fst (listIntents example_context example_runtime None example_intents_reply
      None example_intent_list_params example_world) = Inr resp"
    using example_listIntents_returns by blast
  obtain rresp where rr: "fst (listRelationships example_context example_runtime None
      example_relationships_reply None example_relationship_list_params example_world) = Inr rresp"
    using example_listRelationships_returns by blast
  have l: "withDefault 20 (lp_limit example_intent_list_params) = real 2"
    by (simp add: example_intent_list_params_def withDefault_def)
  have d: "sr_data example_intents_reply = Some example_intent_rows"
    by (simp add: example_intents_reply_def)
  have rl: "withDefault 20 (rlp_limit example_relationship_list_params) = real 2"
    by (simp add: example_relationship_list_params_def withDefault_def)
  have rd: "sr_data example_relationships_reply = Some example_relationship_rows"
    by (simp add: example_relationships_reply_def)
  from list_pagination [of example_context example_runtime None example_intents_reply None
      example_intent_list_params example_world resp 2 example_intent_rows
      example_relationships_reply example_relationship_list_params rresp 2
      example_relationship_rows] r l d rr rl rd
  have p: "pageOf 2 example_intent_rows (\<lambda>item. intentResponseOf example_runtime item True None)
             ir_id resp"
    and rp: "pageOf 2 example_relationship_rows relationshipResponseOf rr_id rresp"
    by blast+
  from p have 1: "map ir_id (pr_data resp)
         = [''123e4567-e89b-12d3-a456-426614174010'', ''123e4567-e89b-12d3-a456-426614174011'']
     \<and> pg_has_more (rm_pagination (pr_meta resp))
     \<and> pg_cursor (rm_pagination (pr_meta resp)) = Some ''123e4567-e89b-12d3-a456-426614174011''"
    by (simp add: pageOf_def example_intent_rows_def intentResponseOf_def Let_def)
  from rp have 2: "map rr_id (pr_data rresp)
         = [''123e4567-e89b-12d3-a456-426614174020'', ''123e4567-e89b-12d3-a456-426614174021'']
     \<and> pg_has_more (rm_pagination (pr_meta rresp))
     \<and> pg_cursor (rm_pagination (pr_meta rresp)) = Some ''123e4567-e89b-12d3-a456-426614174021''"
    by (simp add: pageOf_def example_relationship_rows_def relationshipResponseOf_def
          example_relationship_row_def)
  have 3: "length example_intent_rows = 3" by (simp add: example_intent_rows_def)
  from r l d rr rl rd 1 2 3 show ?thesis
    by (intro exI [of _ resp] exI [of _ rresp]) simp
qed

subsection \<open>Analytics over an empty pipeline\<close>

text \<open>
  C6. When the tenant context could be set and both fetches of \<^verbatim>\<open>getPipelineAnalytics\<close>
  succeed with zero rows, the operation returns a response (no exception) in which the
  average deal size and the overall conversion rate are 0 and each of the five stage
  entries has count 0 and averages of value, probability and days in stage equal to 0.
\<close>

theorem empty_pipeline_analytics:
  assumes "set_reply = None"
    and "sr_error stage_reply = None" and "sr_data stage_reply = Some []"
    and "sr_error closed_reply = None" and "sr_data closed_reply = Some []"
  shows "\<exists>resp. fst (getPipelineAnalytics ctx rt set_reply stage_reply closed_reply clear_reply w)
                  = Inr resp
           \<and> pa_total_intents (as_data resp) = 0
           \<and> pa_avg_deal_size (as_data resp) = 0
           \<and> pa_overall_conversion_rate (as_data resp) = 0
           \<and> map sm_stage (pa_stage_metrics (as_data resp))
               = [Discovery, Qualification, Proposal, Negotiation, ClosedWon]
           \<and> (\<forall>m \<in> set (pa_stage_metrics (as_data resp)).
                 sm_count m = 0 \<and> sm_avg_value m = 0 \<and> sm_avg_probability m = 0
                 \<and> sm_avg_days_in_stage m = 0)"
  using assms
  by (simp add: getPipelineAnalytics_def getPipelineAnalytics_try_def catchFinally_def
        setOrgContext_def Let_def calculateStageMetrics_def stageMetricsOf_def)

text \<open>
  C6 at concrete empty replies.
\<close>

theorem empty_pipeline_analytics_witness:
  "sr_error example_empty_stage_reply = None \<and> sr_data example_empty_stage_reply = Some []
   \<and> sr_error example_empty_closed_reply = None \<and> sr_data example_empty_closed_reply = Some []
   \<and> (\<exists>resp. fst (getPipelineAnalytics example_context example_runtime None
                     example_empty_stage_reply example_empty_closed_reply None example_world)
                = Inr resp
         \<and> pa_avg_deal_size (as_data resp) = 0
         \<and> pa_overall_conversion_rate (as_data resp) = 0
         \<and> map sm_avg_value (pa_stage_metrics (as_data resp)) = [0, 0, 0, 0, 0]
         \<and> map sm_avg_probability (pa_stage_metrics (as_data resp)) = [0, 0, 0, 0, 0]
         \<and> map sm_avg_days_in_stage (pa_stage_metrics (as_data resp)) = [0, 0, 0, 0, 0])"
proof -
  have h: "sr_error example_empty_stage_reply = None" "sr_data example_empty_stage_reply = Some []"
    "sr_error example_empty_closed_reply = None" "sr_data example_empty_closed_reply = Some []"
    by (simp_all add: example_empty_stage_reply_def example_empty_closed_reply_def)
  from empty_pipeline_analytics [OF refl h, of example_context example_runtime None example_world]
  obtain resp where all: "fst (getPipelineAnalytics example_context example_runtime None
                     example_empty_stage_reply example_empty_closed_reply None example_world)
                = Inr resp
           \<and> pa_total_intents (as_data resp) = 0
           \<and> pa_avg_deal_size (as_data resp) = 0
           \<and> pa_overall_conversion_rate (as_data resp) = 0
           \<and> map sm_stage (pa_stage_metrics (as_data resp))
               = [Discovery, Qualification, Proposal, Negotiation, ClosedWon]
           \<and> (\<forall>m \<in> set (pa_stage_metrics (as_data resp)).
                 sm_count m = 0 \<and> sm_avg_value m = 0 \<and> sm_avg_probability m = 0
                 \<and> sm_avg_days_in_stage m = 0)" ..
  then have r: "fst (getPipelineAnalytics example_context example_runtime None
                     example_empty_stage_reply example_empty_closed_reply None example_world)
                = Inr resp"
    and z: "pa_avg_deal_size (as_data resp) = 0" "pa_overall_conversion_rate (as_data resp) = 0"
    and st: "map sm_stage (pa_stage_metrics (as_data resp))
               = [Discovery, Qualification, Proposal, Negotiation, ClosedWon]"
    and m: "\<forall>m \<in> set (pa_stage_metrics (as_data resp)).
                 sm_count m = 0 \<and> sm_avg_value m = 0 \<and> sm_avg_probability m = 0
                 \<and> sm_avg_days_in_stage m = 0"
    by simp_all
  from st have len: "length (pa_stage_metrics (as_data resp)) = 5"
    using length_map [of sm_stage "pa_stage_metrics (as_data resp)"] by simp
  from m have "map sm_avg_value (pa_stage_metrics (as_data resp))
                 = replicate (length (pa_stage_metrics (as_data resp))) 0"
    and "map sm_avg_probability (pa_stage_metrics (as_data resp))
                 = replicate (length (pa_stage_metrics (as_data resp))) 0"
    and "map sm_avg_days_in_stage (pa_stage_metrics (as_data resp))
                 = replicate (length (pa_stage_metrics (as_data resp))) 0"
    by (simp_all add: map_replicate_const [symmetric] cong: map_cong)
  with len have "map sm_avg_value (pa_stage_metrics (as_data resp)) = [0, 0, 0, 0, 0]"
    and "map sm_avg_probability (pa_stage_metrics (as_data resp)) = [0, 0, 0, 0, 0]"
    and "map sm_avg_days_in_stage (pa_stage_metrics (as_data resp)) = [0, 0, 0, 0, 0]"
    by (simp_all add: numeral_eq_Suc)
  with h r z show ?thesis by simp
qed

end
